theory Spec2Isabelle
  imports Main "HOL-Library.Word"
begin

unbundle bit_operations_syntax

section \<open>Processor state\<close>

text \<open>
  Go's fixed-width integers are words. The signed types \<open>int8\<close> and \<open>int32\<close> are words
  too, read with \<open>sint\<close> and compared with the signed order; a conversion between widths
  is \<open>ucast\<close> when the source operand is unsigned (zero extension or truncation) and
  \<open>scast\<close> when it is signed (sign extension).
\<close>

type_synonym uint8 = "8 word"
type_synonym uint16 = "16 word"
type_synonym uint32 = "32 word"
type_synonym uint64 = "64 word"
type_synonym int8 = "8 word"
type_synonym int32 = "32 word"

text \<open>
  What ends a handler early: a failed index check of the Go runtime (a panic), or
  \<open>os.Exit\<close> with its status after a "Not implemented" message.
\<close>

datatype error = IndexOutOfRange | Exit int

text \<open>
  The struct \<open>Emulator\<close>. \<open>Registers\<close> is the array \<open>[RegistersCount]uint32\<close>, a list
  that the theorems take to have eight elements. \<open>Output\<close> is not a field of the
  struct: it records, in order, every byte that \<open>IoOut8\<close> prints for port 0x03F8.
\<close>

record Emulator =
  Registers :: "uint32 list"
  Eflags :: uint32
  Memory :: "uint8 list"
  Eip :: uint32
  MaxMemorySize :: uint32
  Output :: "uint8 list"

definition CEax :: uint8 where "CEax = 0"
definition CEcx :: uint8 where "CEcx = 1"
definition CEdx :: uint8 where "CEdx = 2"
definition CEbx :: uint8 where "CEbx = 3"
definition CEsp :: uint8 where "CEsp = 4"
definition CEbp :: uint8 where "CEbp = 5"
definition CEsi :: uint8 where "CEsi = 6"
definition CEdi :: uint8 where "CEdi = 7"
definition RegistersCount :: nat where "RegistersCount = 8"

definition CAl :: uint8 where "CAl = CEax"
definition CAh :: uint8 where "CAh = CEax + 4"
definition CCl :: uint8 where "CCl = CEcx"
definition CCh :: uint8 where "CCh = CEcx + 4"
definition CDl :: uint8 where "CDl = CEdx"
definition CDh :: uint8 where "CDh = CEdx + 4"
definition CBl :: uint8 where "CBl = CEbx"
definition CBh :: uint8 where "CBh = CEbx + 4"

definition CarryFlag :: uint32 where "CarryFlag = 1"
definition ZeroFlag :: uint32 where "ZeroFlag = push_bit 6 1"
definition SignFlag :: uint32 where "SignFlag = push_bit 7 1"
definition OverFlowFlag :: uint32 where "OverFlowFlag = push_bit 11 1"

text \<open>
  Modelled from the spec: the declaration of the struct \<open>ModRM\<close> is not in
  \<open>emulator.go\<close>. Its fields are the spec's addressing descriptor (mode, register-operand
  field, base/memory field, SIB byte, one-byte and four-byte displacement), each with the
  type of the conversion that \<open>ParseModrm\<close> assigns to it.
\<close>

record ModRM =
  Mod :: uint8
  Reg :: uint8
  Rm :: uint8
  Sib :: uint8
  Disp8 :: int8
  Disp32 :: uint32

definition newModRM :: ModRM where
  "newModRM = \<lparr>Mod = 0, Reg = 0, Rm = 0, Sib = 0, Disp8 = 0, Disp32 = 0\<rparr>"

section \<open>Byte and field reader\<close>

definition GetCode8 :: "Emulator \<Rightarrow> uint32 \<Rightarrow> error + uint32" where
  "GetCode8 e index =
     (if unat (Eip e + index) < length (Memory e)
      then Inr (ucast (Memory e ! unat (Eip e + index)))
      else Inl IndexOutOfRange)"

definition GetSignCode8 :: "Emulator \<Rightarrow> uint32 \<Rightarrow> error + int32" where
  "GetSignCode8 e index =
     (if unat (Eip e + index) < length (Memory e)
      then (let val = Memory e ! unat (Eip e + index);
                sign = drop_bit 7 val
            in if sign = 0 then Inr (ucast val)
               else Inr (- (ucast (NOT val + 1))))
      else Inl IndexOutOfRange)"

text \<open>The loop \<open>for i = 0; i < 4; i++\<close> of \<open>GetCode32\<close>, over its four indices.\<close>

definition GetCode32 :: "Emulator \<Rightarrow> uint32 \<Rightarrow> error + uint32" where
  "GetCode32 e index =
     fold (\<lambda>i acc. case acc of
                      Inl err \<Rightarrow> Inl err
                    | Inr ret \<Rightarrow>
                        (case GetCode8 e (index + of_nat i) of
                           Inl err \<Rightarrow> Inl err
                         | Inr b \<Rightarrow> Inr (ret OR push_bit (i * 8) b)))
          [0, 1, 2, 3] (Inr 0)"

definition GetSignCode32 :: "Emulator \<Rightarrow> uint32 \<Rightarrow> error + int32" where
  "GetSignCode32 e index =
     (case GetCode32 e index of
        Inl err \<Rightarrow> Inl err
      | Inr val \<Rightarrow>
          (let sign = drop_bit 31 val
           in if sign = 0 then Inr val
              else Inr (- (NOT val + 1))))"

section \<open>Registers and memory\<close>

definition setRegister32 :: "Emulator \<Rightarrow> uint8 \<Rightarrow> uint32 \<Rightarrow> error + Emulator" where
  "setRegister32 e index val =
     (if unat index < length (Registers e)
      then Inr (e\<lparr>Registers := (Registers e)[unat index := val]\<rparr>)
      else Inl IndexOutOfRange)"

definition getRegister32 :: "Emulator \<Rightarrow> uint8 \<Rightarrow> error + uint32" where
  "getRegister32 e index =
     (if unat index < length (Registers e)
      then Inr (Registers e ! unat index)
      else Inl IndexOutOfRange)"

definition getRegister8 :: "Emulator \<Rightarrow> uint8 \<Rightarrow> error + uint8" where
  "getRegister8 e index =
     (if index < 4
      then (if unat index < length (Registers e)
            then Inr (ucast (Registers e ! unat index AND 0xFF))
            else Inl IndexOutOfRange)
      else (if unat (index - 4) < length (Registers e)
            then Inr (ucast (drop_bit 8 (Registers e ! unat (index - 4)) AND 0xFF))
            else Inl IndexOutOfRange))"

definition setRegister8 :: "Emulator \<Rightarrow> uint8 \<Rightarrow> uint8 \<Rightarrow> error + Emulator" where
  "setRegister8 e index val =
     (if index < 4
      then (if unat index < length (Registers e)
            then (let v = Registers e ! unat index AND 0xFFFFFF00
                  in Inr (e\<lparr>Registers := (Registers e)[unat index := v OR ucast val]\<rparr>))
            else Inl IndexOutOfRange)
      else (if unat (index - 4) < length (Registers e)
            then (let v = Registers e ! unat (index - 4) AND 0xFFFF00FF
                  in Inr (e\<lparr>Registers :=
                            (Registers e)[unat (index - 4) := v OR push_bit 8 (ucast val)]\<rparr>))
            else Inl IndexOutOfRange))"

definition setMemory8 :: "Emulator \<Rightarrow> uint32 \<Rightarrow> uint32 \<Rightarrow> error + Emulator" where
  "setMemory8 e address val =
     (if unat address < length (Memory e)
      then Inr (e\<lparr>Memory := (Memory e)[unat address := ucast (val AND 0xFF)]\<rparr>)
      else Inl IndexOutOfRange)"

definition getMemory8 :: "Emulator \<Rightarrow> uint32 \<Rightarrow> error + uint8" where
  "getMemory8 e address =
     (if unat address < length (Memory e)
      then Inr (Memory e ! unat address)
      else Inl IndexOutOfRange)"

text \<open>The four-step loops of \<open>setMemory32\<close> and \<open>getMemory32\<close>, \<open>i\<close> from 0 to 3.\<close>

definition setMemory32 :: "Emulator \<Rightarrow> uint32 \<Rightarrow> uint32 \<Rightarrow> error + Emulator" where
  "setMemory32 e address val =
     fold (\<lambda>i acc. case acc of
                      Inl err \<Rightarrow> Inl err
                    | Inr e' \<Rightarrow> setMemory8 e' (address + of_nat i) (drop_bit (i * 8) val AND 0xFF))
          [0, 1, 2, 3] (Inr e)"

definition getMemory32 :: "Emulator \<Rightarrow> uint32 \<Rightarrow> error + uint32" where
  "getMemory32 e address =
     fold (\<lambda>i acc. case acc of
                      Inl err \<Rightarrow> Inl err
                    | Inr ret \<Rightarrow>
                        (case getMemory8 e (address + of_nat i) of
                           Inl err \<Rightarrow> Inl err
                         | Inr b \<Rightarrow> Inr (ret OR push_bit (i * 8) (ucast b))))
          [0, 1, 2, 3] (Inr 0)"

section \<open>Addressing-mode decoder\<close>

text \<open>
  \<open>ParseModrm\<close> returns the descriptor and the state with the program counter moved
  past the bytes it read.
\<close>

definition ParseModrm :: "Emulator \<Rightarrow> error + (ModRM \<times> Emulator)" where
  "ParseModrm e =
     (case GetCode8 e 0 of
        Inl err \<Rightarrow> Inl err
      | Inr code \<Rightarrow>
          (let modRM = newModRM\<lparr>Mod := ucast (drop_bit 6 (code AND 0xc0)),
                                 Reg := ucast (drop_bit 3 (code AND 0x38)),
                                 Rm := ucast (code AND 0x07)\<rparr>;
               e1 = e\<lparr>Eip := Eip e + 1\<rparr>
           in case (if Mod modRM \<noteq> 3 \<and> Rm modRM = 4
                    then (case GetCode8 e1 0 of
                            Inl err \<Rightarrow> Inl err
                          | Inr sib \<Rightarrow> Inr (modRM\<lparr>Sib := ucast sib\<rparr>, e1\<lparr>Eip := Eip e1 + 1\<rparr>))
                    else Inr (modRM, e1)) of
                Inl err \<Rightarrow> Inl err
              | Inr (modRM2, e2) \<Rightarrow>
                  (if (Mod modRM2 = 0 \<and> Rm modRM2 = 5) \<or> Mod modRM2 = 2
                   then (case GetSignCode32 e2 0 of
                           Inl err \<Rightarrow> Inl err
                         | Inr d \<Rightarrow> Inr (modRM2\<lparr>Disp32 := d\<rparr>, e2\<lparr>Eip := Eip e2 + 4\<rparr>))
                   else if Mod modRM2 = 1
                   then (case GetSignCode8 e2 0 of
                           Inl err \<Rightarrow> Inl err
                         | Inr d \<Rightarrow> Inr (modRM2\<lparr>Disp8 := ucast d\<rparr>, e2\<lparr>Eip := Eip e2 + 1\<rparr>))
                   else Inr (modRM2, e2))))"

text \<open>
  \<open>m.Disp8\<close> is an \<open>int8\<close>: \<open>m.Disp8 > 0\<close> is the signed comparison, \<open>-m.Disp8\<close> is
  negation in eight bits, and \<open>uint32(...)\<close> of an \<open>int8\<close> extends the sign.
\<close>

definition calcMemoryAddress :: "Emulator \<Rightarrow> ModRM \<Rightarrow> error + uint32" where
  "calcMemoryAddress e m =
     (if Mod m = 0 then
        (if Rm m = 4 then Inl (Exit 0)
         else if Rm m = 5 then Inr (Disp32 m)
         else getRegister32 e (Rm m))
      else if Mod m = 1 then
        (if Rm m = 4 then Inl (Exit 0)
         else if 0 <s Disp8 m
         then (case getRegister32 e (Rm m) of
                 Inl err \<Rightarrow> Inl err
               | Inr r \<Rightarrow> Inr (r + scast (Disp8 m)))
         else (case getRegister32 e (Rm m) of
                 Inl err \<Rightarrow> Inl err
               | Inr r \<Rightarrow> Inr (r - scast (- Disp8 m))))
      else if Mod m = 2 then
        (if Rm m = 4 then Inl (Exit 0)
         else (case getRegister32 e (Rm m) of
                 Inl err \<Rightarrow> Inl err
               | Inr r \<Rightarrow> Inr (r + Disp32 m)))
      else Inl (Exit 0))"

definition getRm32 :: "Emulator \<Rightarrow> ModRM \<Rightarrow> error + uint32" where
  "getRm32 e m =
     (if Mod m = 3 then getRegister32 e (Rm m)
      else (case calcMemoryAddress e m of
              Inl err \<Rightarrow> Inl err
            | Inr address \<Rightarrow> getMemory32 e address))"

definition setRm32 :: "Emulator \<Rightarrow> ModRM \<Rightarrow> uint32 \<Rightarrow> error + Emulator" where
  "setRm32 e m val =
     (if Mod m = 3 then setRegister32 e (Rm m) val
      else (case calcMemoryAddress e m of
              Inl err \<Rightarrow> Inl err
            | Inr address \<Rightarrow> setMemory32 e address val))"

definition getR32 :: "Emulator \<Rightarrow> ModRM \<Rightarrow> error + uint32" where
  "getR32 e m = getRegister32 e (Reg m)"

definition setR32 :: "Emulator \<Rightarrow> ModRM \<Rightarrow> uint32 \<Rightarrow> error + Emulator" where
  "setR32 e m val = setRegister32 e (Reg m) val"

definition getRm8 :: "Emulator \<Rightarrow> ModRM \<Rightarrow> error + uint8" where
  "getRm8 e m =
     (if Mod m = 3 then getRegister8 e (Rm m)
      else (case calcMemoryAddress e m of
              Inl err \<Rightarrow> Inl err
            | Inr address \<Rightarrow> getMemory8 e address))"

definition setRm8 :: "Emulator \<Rightarrow> ModRM \<Rightarrow> uint8 \<Rightarrow> error + Emulator" where
  "setRm8 e m val =
     (if Mod m = 3 then setRegister8 e (Rm m) val
      else (case calcMemoryAddress e m of
              Inl err \<Rightarrow> Inl err
            | Inr address \<Rightarrow> setMemory8 e address (ucast val)))"

definition setR8 :: "Emulator \<Rightarrow> ModRM \<Rightarrow> uint8 \<Rightarrow> error + Emulator" where
  "setR8 e m val = setRegister8 e (Reg m) val"

definition getR8 :: "Emulator \<Rightarrow> ModRM \<Rightarrow> error + uint8" where
  "getR8 e m = getRegister8 e (Reg m)"

section \<open>Flag engine\<close>

definition setCarry :: "Emulator \<Rightarrow> bool \<Rightarrow> Emulator" where
  "setCarry e b =
     (if b then e\<lparr>Eflags := Eflags e OR CarryFlag\<rparr>
      else e\<lparr>Eflags := Eflags e AND NOT CarryFlag\<rparr>)"

definition setZero :: "Emulator \<Rightarrow> bool \<Rightarrow> Emulator" where
  "setZero e b =
     (if b then e\<lparr>Eflags := Eflags e OR ZeroFlag\<rparr>
      else e\<lparr>Eflags := Eflags e AND NOT ZeroFlag\<rparr>)"

definition setSign :: "Emulator \<Rightarrow> bool \<Rightarrow> Emulator" where
  "setSign e b =
     (if b then e\<lparr>Eflags := Eflags e OR SignFlag\<rparr>
      else e\<lparr>Eflags := Eflags e AND NOT SignFlag\<rparr>)"

definition setOverFlow :: "Emulator \<Rightarrow> bool \<Rightarrow> Emulator" where
  "setOverFlow e b =
     (if b then e\<lparr>Eflags := Eflags e OR OverFlowFlag\<rparr>
      else e\<lparr>Eflags := Eflags e AND NOT OverFlowFlag\<rparr>)"

definition isCarry :: "Emulator \<Rightarrow> bool" where
  "isCarry e = (Eflags e AND CarryFlag \<noteq> 0)"

definition isZero :: "Emulator \<Rightarrow> bool" where
  "isZero e = (Eflags e AND ZeroFlag \<noteq> 0)"

definition isSign :: "Emulator \<Rightarrow> bool" where
  "isSign e = (Eflags e AND SignFlag \<noteq> 0)"

definition isOverFlow :: "Emulator \<Rightarrow> bool" where
  "isOverFlow e = (Eflags e AND OverFlowFlag \<noteq> 0)"

definition updateEflagsSub :: "Emulator \<Rightarrow> uint32 \<Rightarrow> uint32 \<Rightarrow> uint64 \<Rightarrow> Emulator" where
  "updateEflagsSub e v1 v2 result =
     (let sign1 = drop_bit 31 v1;
          sign2 = drop_bit 31 v2;
          signr = drop_bit 31 result AND 0x01;
          e1 = setCarry e (drop_bit 32 result \<noteq> 0);
          e2 = setZero e1 (result = 0);
          e3 = setSign e2 (signr = 1)
      in setOverFlow e3 (sign1 \<noteq> sign2 \<and> sign1 \<noteq> ucast signr))"

section \<open>Instruction handlers\<close>

definition MovR32Imm32 :: "Emulator \<Rightarrow> error + Emulator" where
  "MovR32Imm32 e =
     (case GetCode8 e 0 of
        Inl err \<Rightarrow> Inl err
      | Inr c \<Rightarrow>
          (let reg = c - 0xB8
           in case GetCode32 e 1 of
                Inl err \<Rightarrow> Inl err
              | Inr val \<Rightarrow>
                  (if unat reg < length (Registers e)
                   then Inr (e\<lparr>Registers := (Registers e)[unat reg := val], Eip := Eip e + 5\<rparr>)
                   else Inl IndexOutOfRange)))"

text \<open>
  The block that ends every jump handler, with the instruction length \<open>len\<close>:
  \<open>if diff > 0 { e.Eip += uint32(diff) + len } else { e.Eip -= uint32(-diff); e.Eip += len }\<close>.
  \<open>diff\<close> is an \<open>int32\<close>, so the comparison is the signed one.
\<close>

definition jumpBy :: "Emulator \<Rightarrow> int32 \<Rightarrow> uint32 \<Rightarrow> Emulator" where
  "jumpBy e diff len =
     (if 0 <s diff then e\<lparr>Eip := Eip e + (diff + len)\<rparr>
      else (let e1 = e\<lparr>Eip := Eip e - (- diff)\<rparr> in e1\<lparr>Eip := Eip e1 + len\<rparr>))"

definition ShortJump :: "Emulator \<Rightarrow> error + Emulator" where
  "ShortJump e =
     (case GetSignCode8 e 1 of
        Inl err \<Rightarrow> Inl err
      | Inr diff \<Rightarrow> Inr (jumpBy e diff 2))"

definition NearJump :: "Emulator \<Rightarrow> error + Emulator" where
  "NearJump e =
     (case GetSignCode32 e 1 of
        Inl err \<Rightarrow> Inl err
      | Inr diff \<Rightarrow> Inr (jumpBy e diff 5))"

definition MovRm32Imm32 :: "Emulator \<Rightarrow> error + Emulator" where
  "MovRm32Imm32 e =
     (case ParseModrm (e\<lparr>Eip := Eip e + 1\<rparr>) of
        Inl err \<Rightarrow> Inl err
      | Inr (modRM, e1) \<Rightarrow>
          (case GetCode32 e1 0 of
             Inl err \<Rightarrow> Inl err
           | Inr val \<Rightarrow> setRm32 (e1\<lparr>Eip := Eip e1 + 4\<rparr>) modRM val))"

definition MovRm32R32 :: "Emulator \<Rightarrow> error + Emulator" where
  "MovRm32R32 e =
     (case ParseModrm (e\<lparr>Eip := Eip e + 1\<rparr>) of
        Inl err \<Rightarrow> Inl err
      | Inr (modRM, e1) \<Rightarrow>
          (case getR32 e1 modRM of
             Inl err \<Rightarrow> Inl err
           | Inr r32 \<Rightarrow> setRm32 e1 modRM r32))"

definition MovR32Rm32 :: "Emulator \<Rightarrow> error + Emulator" where
  "MovR32Rm32 e =
     (case ParseModrm (e\<lparr>Eip := Eip e + 1\<rparr>) of
        Inl err \<Rightarrow> Inl err
      | Inr (modRM, e1) \<Rightarrow>
          (case getRm32 e1 modRM of
             Inl err \<Rightarrow> Inl err
           | Inr rm32 \<Rightarrow> setR32 e1 modRM rm32))"

definition AddRm32R32 :: "Emulator \<Rightarrow> error + Emulator" where
  "AddRm32R32 e =
     (case ParseModrm (e\<lparr>Eip := Eip e + 1\<rparr>) of
        Inl err \<Rightarrow> Inl err
      | Inr (modRM, e1) \<Rightarrow>
          (case getR32 e1 modRM of
             Inl err \<Rightarrow> Inl err
           | Inr r32 \<Rightarrow>
               (case getRm32 e1 modRM of
                  Inl err \<Rightarrow> Inl err
                | Inr rm32 \<Rightarrow> setRm32 e1 modRM (r32 + rm32))))"

definition AddRm32Imm8 :: "Emulator \<Rightarrow> ModRM \<Rightarrow> error + Emulator" where
  "AddRm32Imm8 e m =
     (case getRm32 e m of
        Inl err \<Rightarrow> Inl err
      | Inr rm32 \<Rightarrow>
          (case GetSignCode8 e 0 of
             Inl err \<Rightarrow> Inl err
           | Inr imm8 \<Rightarrow> setRm32 (e\<lparr>Eip := Eip e + 1\<rparr>) m (rm32 + imm8)))"

definition CmpR32Rm32 :: "Emulator \<Rightarrow> error + Emulator" where
  "CmpR32Rm32 e =
     (case ParseModrm (e\<lparr>Eip := Eip e + 1\<rparr>) of
        Inl err \<Rightarrow> Inl err
      | Inr (modRM, e1) \<Rightarrow>
          (case getR32 e1 modRM of
             Inl err \<Rightarrow> Inl err
           | Inr r32 \<Rightarrow>
               (case getRm32 e1 modRM of
                  Inl err \<Rightarrow> Inl err
                | Inr rm32 \<Rightarrow>
                    (let result = (ucast r32 :: uint64) - ucast rm32
                     in Inr (updateEflagsSub e1 r32 rm32 result)))))"

text \<open>
  In \<open>CmpRm32Imm8\<close> the immediate is converted to \<open>uint32\<close> before it is widened to
  64 bits (zero extension); in \<open>SubRm32Imm8\<close> it is still an \<open>int32\<close> when
  \<open>uint64(imm8)\<close> widens it (sign extension).
\<close>

definition CmpRm32Imm8 :: "Emulator \<Rightarrow> ModRM \<Rightarrow> error + Emulator" where
  "CmpRm32Imm8 e m =
     (case getRm32 e m of
        Inl err \<Rightarrow> Inl err
      | Inr rm32 \<Rightarrow>
          (case GetSignCode8 e 0 of
             Inl err \<Rightarrow> Inl err
           | Inr s \<Rightarrow>
               (let imm8 = (s :: uint32);
                    e1 = e\<lparr>Eip := Eip e + 1\<rparr>;
                    result = (ucast rm32 :: uint64) - ucast imm8
                in Inr (updateEflagsSub e1 rm32 imm8 result))))"

definition SubRm32Imm8 :: "Emulator \<Rightarrow> ModRM \<Rightarrow> error + Emulator" where
  "SubRm32Imm8 e m =
     (case getRm32 e m of
        Inl err \<Rightarrow> Inl err
      | Inr rm32 \<Rightarrow>
          (case GetSignCode8 e 0 of
             Inl err \<Rightarrow> Inl err
           | Inr imm8 \<Rightarrow>
               (let e1 = e\<lparr>Eip := Eip e + 1\<rparr>;
                    result = (ucast rm32 :: uint64) - scast imm8
                in case setRm32 e1 m (ucast result) of
                     Inl err \<Rightarrow> Inl err
                   | Inr e2 \<Rightarrow> Inr (updateEflagsSub e2 rm32 imm8 result))))"

definition Code83 :: "Emulator \<Rightarrow> error + Emulator" where
  "Code83 e =
     (case ParseModrm (e\<lparr>Eip := Eip e + 1\<rparr>) of
        Inl err \<Rightarrow> Inl err
      | Inr (modRM, e1) \<Rightarrow>
          (if Reg modRM = 0 then AddRm32Imm8 e1 modRM
           else if Reg modRM = 5 then SubRm32Imm8 e1 modRM
           else if Reg modRM = 7 then CmpRm32Imm8 e1 modRM
           else Inl (Exit 1)))"

definition IncRm32 :: "Emulator \<Rightarrow> ModRM \<Rightarrow> error + Emulator" where
  "IncRm32 e m =
     (case getRm32 e m of
        Inl err \<Rightarrow> Inl err
      | Inr val \<Rightarrow> setRm32 e m (val + 1))"

definition CodeFF :: "Emulator \<Rightarrow> error + Emulator" where
  "CodeFF e =
     (case ParseModrm (e\<lparr>Eip := Eip e + 1\<rparr>) of
        Inl err \<Rightarrow> Inl err
      | Inr (modRM, e1) \<Rightarrow>
          (if Reg modRM = 0 then IncRm32 e1 modRM
           else Inl (Exit 1)))"

subsection \<open>Stack\<close>

definition push32 :: "Emulator \<Rightarrow> uint32 \<Rightarrow> error + Emulator" where
  "push32 e val =
     (case getRegister32 e CEsp of
        Inl err \<Rightarrow> Inl err
      | Inr sp \<Rightarrow>
          (let address = sp - 0x4
           in case setRegister32 e CEsp address of
                Inl err \<Rightarrow> Inl err
              | Inr e1 \<Rightarrow> setMemory32 e1 address val))"

definition pop32 :: "Emulator \<Rightarrow> error + (uint32 \<times> Emulator)" where
  "pop32 e =
     (case getRegister32 e CEsp of
        Inl err \<Rightarrow> Inl err
      | Inr address \<Rightarrow>
          (case getMemory32 e address of
             Inl err \<Rightarrow> Inl err
           | Inr ret \<Rightarrow>
               (case setRegister32 e CEsp (address + 0x4) of
                  Inl err \<Rightarrow> Inl err
                | Inr e1 \<Rightarrow> Inr (ret, e1))))"

text \<open>
  Go evaluates the argument \<open>e.getRegister32(uint8(reg))\<close> before it calls \<open>push32\<close>,
  and the argument \<open>e.pop32()\<close> before it calls \<open>setRegister32\<close>.
\<close>

definition PushR32 :: "Emulator \<Rightarrow> error + Emulator" where
  "PushR32 e =
     (case GetCode8 e 0 of
        Inl err \<Rightarrow> Inl err
      | Inr c \<Rightarrow>
          (let reg = c - 0x50
           in case getRegister32 e (ucast reg) of
                Inl err \<Rightarrow> Inl err
              | Inr val \<Rightarrow>
                  (case push32 e val of
                     Inl err \<Rightarrow> Inl err
                   | Inr e1 \<Rightarrow> Inr (e1\<lparr>Eip := Eip e1 + 1\<rparr>))))"

definition popR32 :: "Emulator \<Rightarrow> error + Emulator" where
  "popR32 e =
     (case GetCode8 e 0 of
        Inl err \<Rightarrow> Inl err
      | Inr c \<Rightarrow>
          (let reg = c - 0x58
           in case pop32 e of
                Inl err \<Rightarrow> Inl err
              | Inr (val, e1) \<Rightarrow>
                  (case setRegister32 e1 (ucast reg) val of
                     Inl err \<Rightarrow> Inl err
                   | Inr e2 \<Rightarrow> Inr (e2\<lparr>Eip := Eip e2 + 1\<rparr>))))"

definition CallRel32 :: "Emulator \<Rightarrow> error + Emulator" where
  "CallRel32 e =
     (case GetSignCode32 e 1 of
        Inl err \<Rightarrow> Inl err
      | Inr diff \<Rightarrow>
          (case push32 e (Eip e + 5) of
             Inl err \<Rightarrow> Inl err
           | Inr e1 \<Rightarrow> Inr (jumpBy e1 diff 5)))"

definition Ret :: "Emulator \<Rightarrow> error + Emulator" where
  "Ret e =
     (case pop32 e of
        Inl err \<Rightarrow> Inl err
      | Inr (val, e1) \<Rightarrow> Inr (e1\<lparr>Eip := val\<rparr>))"

definition Leave :: "Emulator \<Rightarrow> error + Emulator" where
  "Leave e =
     (case getRegister32 e CEbp of
        Inl err \<Rightarrow> Inl err
      | Inr ebp \<Rightarrow>
          (case setRegister32 e CEsp ebp of
             Inl err \<Rightarrow> Inl err
           | Inr e1 \<Rightarrow>
               (case pop32 e1 of
                  Inl err \<Rightarrow> Inl err
                | Inr (val, e2) \<Rightarrow>
                    (case setRegister32 e2 CEbp val of
                       Inl err \<Rightarrow> Inl err
                     | Inr e3 \<Rightarrow> Inr (e3\<lparr>Eip := Eip e3 + 1\<rparr>)))))"

definition PushImm32 :: "Emulator \<Rightarrow> error + Emulator" where
  "PushImm32 e =
     (case GetCode32 e 1 of
        Inl err \<Rightarrow> Inl err
      | Inr val \<Rightarrow>
          (case push32 e val of
             Inl err \<Rightarrow> Inl err
           | Inr e1 \<Rightarrow> Inr (e1\<lparr>Eip := Eip e1 + 5\<rparr>)))"

definition PushImm8 :: "Emulator \<Rightarrow> error + Emulator" where
  "PushImm8 e =
     (case GetCode8 e 1 of
        Inl err \<Rightarrow> Inl err
      | Inr val \<Rightarrow>
          (case push32 e val of
             Inl err \<Rightarrow> Inl err
           | Inr e1 \<Rightarrow> Inr (e1\<lparr>Eip := Eip e1 + 2\<rparr>)))"

subsection \<open>Conditional short jumps\<close>

text \<open>
  Each handler reads the displacement only when its predicate selects it, and takes 0
  otherwise.
\<close>

definition Js :: "Emulator \<Rightarrow> error + Emulator" where
  "Js e =
     (case (if isSign e then GetSignCode8 e 1 else Inr 0) of
        Inl err \<Rightarrow> Inl err
      | Inr diff \<Rightarrow> Inr (jumpBy e diff 2))"

definition Jns :: "Emulator \<Rightarrow> error + Emulator" where
  "Jns e =
     (case (if isSign e then Inr 0 else GetSignCode8 e 1) of
        Inl err \<Rightarrow> Inl err
      | Inr diff \<Rightarrow> Inr (jumpBy e diff 2))"

definition Jc :: "Emulator \<Rightarrow> error + Emulator" where
  "Jc e =
     (case (if isCarry e then GetSignCode8 e 1 else Inr 0) of
        Inl err \<Rightarrow> Inl err
      | Inr diff \<Rightarrow> Inr (jumpBy e diff 2))"

definition Jnc :: "Emulator \<Rightarrow> error + Emulator" where
  "Jnc e =
     (case (if isCarry e then Inr 0 else GetSignCode8 e 1) of
        Inl err \<Rightarrow> Inl err
      | Inr diff \<Rightarrow> Inr (jumpBy e diff 2))"

definition Jz :: "Emulator \<Rightarrow> error + Emulator" where
  "Jz e =
     (case (if isZero e then GetSignCode8 e 1 else Inr 0) of
        Inl err \<Rightarrow> Inl err
      | Inr diff \<Rightarrow> Inr (jumpBy e diff 2))"

definition Jnz :: "Emulator \<Rightarrow> error + Emulator" where
  "Jnz e =
     (case (if isZero e then Inr 0 else GetSignCode8 e 1) of
        Inl err \<Rightarrow> Inl err
      | Inr diff \<Rightarrow> Inr (jumpBy e diff 2))"

definition Jo :: "Emulator \<Rightarrow> error + Emulator" where
  "Jo e =
     (case (if isOverFlow e then GetSignCode8 e 1 else Inr 0) of
        Inl err \<Rightarrow> Inl err
      | Inr diff \<Rightarrow> Inr (jumpBy e diff 2))"

definition Jno :: "Emulator \<Rightarrow> error + Emulator" where
  "Jno e =
     (case (if isOverFlow e then Inr 0 else GetSignCode8 e 1) of
        Inl err \<Rightarrow> Inl err
      | Inr diff \<Rightarrow> Inr (jumpBy e diff 2))"

definition Jl :: "Emulator \<Rightarrow> error + Emulator" where
  "Jl e =
     (case (if isSign e \<noteq> isOverFlow e then GetSignCode8 e 1 else Inr 0) of
        Inl err \<Rightarrow> Inl err
      | Inr diff \<Rightarrow> Inr (jumpBy e diff 2))"

definition Jle :: "Emulator \<Rightarrow> error + Emulator" where
  "Jle e =
     (case (if isZero e \<or> isSign e \<noteq> isOverFlow e then GetSignCode8 e 1 else Inr 0) of
        Inl err \<Rightarrow> Inl err
      | Inr diff \<Rightarrow> Inr (jumpBy e diff 2))"

subsection \<open>Port output\<close>

definition IoOut8 :: "Emulator \<Rightarrow> uint16 \<Rightarrow> uint8 \<Rightarrow> Emulator" where
  "IoOut8 e address val =
     (if address = 0x03F8 then e\<lparr>Output := Output e @ [val]\<rparr> else e)"

definition OutDxAl :: "Emulator \<Rightarrow> error + Emulator" where
  "OutDxAl e =
     (case getRegister32 e CEdx of
        Inl err \<Rightarrow> Inl err
      | Inr edx \<Rightarrow>
          (let address = edx AND 0xFFFF
           in case getRegister8 e CAl of
                Inl err \<Rightarrow> Inl err
              | Inr val \<Rightarrow>
                  (let e1 = IoOut8 e (ucast address) val
                   in Inr (e1\<lparr>Eip := Eip e1 + 1\<rparr>))))"

subsection \<open>Byte moves, compares with the accumulator, increment\<close>

definition MovR8Imm8 :: "Emulator \<Rightarrow> error + Emulator" where
  "MovR8Imm8 e =
     (case ParseModrm (e\<lparr>Eip := Eip e + 1\<rparr>) of
        Inl err \<Rightarrow> Inl err
      | Inr (modRM, e1) \<Rightarrow>
          (case getRm8 e1 modRM of
             Inl err \<Rightarrow> Inl err
           | Inr rm8 \<Rightarrow> setR8 e1 modRM rm8))"

definition MovRm8R8 :: "Emulator \<Rightarrow> error + Emulator" where
  "MovRm8R8 e =
     (case ParseModrm (e\<lparr>Eip := Eip e + 1\<rparr>) of
        Inl err \<Rightarrow> Inl err
      | Inr (modRM, e1) \<Rightarrow>
          (case getR8 e1 modRM of
             Inl err \<Rightarrow> Inl err
           | Inr r8 \<Rightarrow> setRm8 e1 modRM r8))"

definition MovR8Rm8 :: "Emulator \<Rightarrow> error + Emulator" where
  "MovR8Rm8 e =
     (case ParseModrm (e\<lparr>Eip := Eip e + 1\<rparr>) of
        Inl err \<Rightarrow> Inl err
      | Inr (modRM, e1) \<Rightarrow>
          (case getRm8 e1 modRM of
             Inl err \<Rightarrow> Inl err
           | Inr rm8 \<Rightarrow> setR8 e1 modRM rm8))"

definition CmpAlImm8 :: "Emulator \<Rightarrow> error + Emulator" where
  "CmpAlImm8 e =
     (case GetCode8 e 1 of
        Inl err \<Rightarrow> Inl err
      | Inr val \<Rightarrow>
          (case getRegister8 e CAl of
             Inl err \<Rightarrow> Inl err
           | Inr al \<Rightarrow>
               (let result = (ucast al :: uint64) - ucast val;
                    e1 = updateEflagsSub e (ucast al) val result
                in Inr (e1\<lparr>Eip := Eip e1 + 2\<rparr>))))"

definition CmpEaxImm32 :: "Emulator \<Rightarrow> error + Emulator" where
  "CmpEaxImm32 e =
     (case GetCode32 e 1 of
        Inl err \<Rightarrow> Inl err
      | Inr val \<Rightarrow>
          (case getRegister32 e CEax of
             Inl err \<Rightarrow> Inl err
           | Inr eax \<Rightarrow>
               (let result = (ucast eax :: uint64) - ucast val;
                    e1 = updateEflagsSub e eax val result
                in Inr (e1\<lparr>Eip := Eip e1 + 5\<rparr>))))"

definition IncR32 :: "Emulator \<Rightarrow> error + Emulator" where
  "IncR32 e =
     (case GetCode8 e 0 of
        Inl err \<Rightarrow> Inl err
      | Inr c \<Rightarrow>
          (let reg = c - 0x40
           in case getRegister32 e (ucast reg) of
                Inl err \<Rightarrow> Inl err
              | Inr val \<Rightarrow>
                  (case setRegister32 e (ucast reg) (val + 1) of
                     Inl err \<Rightarrow> Inl err
                   | Inr e1 \<Rightarrow> Inr (e1\<lparr>Eip := Eip e1 + 1\<rparr>))))"

section \<open>Software interrupt and the teletype service\<close>

text \<open>
  \<open>fmt.Sprintf\<close> with the format of \<open>biosVideoTeletype\<close>: \<open>%d\<close> writes an integer in
  decimal, \<open>%c\<close> writes the code point of its argument in UTF-8, which is one byte
  below 0x80 and two bytes from 0x80 to 0xFF.
\<close>

fun digits :: "nat \<Rightarrow> uint8 list" where
  "digits n = (if n < 10 then [of_nat (48 + n)]
               else digits (n div 10) @ [of_nat (48 + n mod 10)])"

declare digits.simps [simp del]

definition fmt_d :: "int \<Rightarrow> uint8 list" where
  "fmt_d n = (if n < 0 then 0x2D # digits (nat (- n)) else digits (nat n))"

definition fmt_c :: "uint8 \<Rightarrow> uint8 list" where
  "fmt_c c = (if c < 0x80 then [c]
              else [0xC0 OR drop_bit 6 c, 0x80 OR (c AND 0x3F)])"

definition teletypeString :: "uint8 \<Rightarrow> int \<Rightarrow> uint8 \<Rightarrow> uint8 list" where
  "teletypeString bright terminalColor char =
     [0x1B, 0x5B] @ fmt_d (uint bright) @ [0x3B] @ fmt_d terminalColor @ [0x6D]
     @ fmt_c char @ [0x1B, 0x5B, 0x30, 0x6D, 0x5D]"

definition putString :: "Emulator \<Rightarrow> uint8 list \<Rightarrow> Emulator" where
  "putString e s = fold (\<lambda>b e'. IoOut8 e' 0x03F8 b) s e"

definition biosToTerminal :: "int list" where
  "biosToTerminal = [30, 34, 32, 36, 31, 35, 33, 37]"

text \<open>The index \<open>color&0x07\<close> is below 8, the length of \<open>biosToTerminal\<close>.\<close>

definition biosVideoTeletype :: "Emulator \<Rightarrow> error + Emulator" where
  "biosVideoTeletype e =
     (case getRegister8 e CBl of
        Inl err \<Rightarrow> Inl err
      | Inr bl \<Rightarrow>
          (let color = bl AND 0x0F
           in case getRegister8 e CAl of
                Inl err \<Rightarrow> Inl err
              | Inr char \<Rightarrow>
                  (let terminalColor = biosToTerminal ! unat (color AND 0x07);
                       bright = drop_bit 3 (color AND 0x08);
                       str = teletypeString bright terminalColor char
                   in Inr (putString e str))))"

definition biosVideo :: "Emulator \<Rightarrow> error + Emulator" where
  "biosVideo e =
     (case getRegister8 e CAh of
        Inl err \<Rightarrow> Inl err
      | Inr funcIndex \<Rightarrow>
          (if funcIndex = 0x0e then biosVideoTeletype e else Inr e))"

definition Swi :: "Emulator \<Rightarrow> error + Emulator" where
  "Swi e =
     (case GetCode8 e 1 of
        Inl err \<Rightarrow> Inl err
      | Inr intIndex \<Rightarrow>
          (let e1 = e\<lparr>Eip := Eip e + 2\<rparr>
           in if intIndex = 0x10 then biosVideo e1 else Inr e1))"

section \<open>Dispatch and the run loop\<close>

definition executeOpCode :: "Emulator \<Rightarrow> uint32 \<Rightarrow> error + Emulator" where
  "executeOpCode e opCode =
     (if opCode = 0x01 then AddRm32R32 e
      else if opCode = 0x3B then CmpR32Rm32 e
      else if opCode = 0x3C then CmpAlImm8 e
      else if opCode = 0x3D then CmpEaxImm32 e
      else if opCode \<in> {0x40, 0x41, 0x42, 0x43, 0x44, 0x45, 0x46, 0x47} then IncR32 e
      else if opCode \<in> {0x50, 0x51, 0x52, 0x53, 0x54, 0x55, 0x56, 0x57} then PushR32 e
      else if opCode \<in> {0x58, 0x59, 0x5A, 0x5B, 0x5C, 0x5D, 0x5E, 0x5F} then popR32 e
      else if opCode = 0x68 then PushImm32 e
      else if opCode = 0x6A then PushImm8 e
      else if opCode = 0x70 then Jo e
      else if opCode = 0x71 then Jno e
      else if opCode = 0x72 then Jc e
      else if opCode = 0x73 then Jnc e
      else if opCode = 0x74 then Jz e
      else if opCode = 0x75 then Jnz e
      else if opCode = 0x78 then Js e
      else if opCode = 0x79 then Jns e
      else if opCode = 0x7C then Jl e
      else if opCode = 0x7E then Jle e
      else if opCode = 0x83 then Code83 e
      else if opCode = 0x88 then MovRm8R8 e
      else if opCode = 0x89 then MovRm32R32 e
      else if opCode = 0x8A then MovRm32R32 e
      else if opCode = 0x8B then MovR32Rm32 e
      else if opCode \<in> {0xB0, 0xB1, 0xB2, 0xB3, 0xB4, 0xB5, 0xB6, 0xB7} then MovR8Imm8 e
      else if opCode \<in> {0xB8, 0xB9, 0xBA, 0xBB, 0xBC, 0xBD, 0xBE, 0xBF} then MovR32Imm32 e
      else if opCode = 0xC3 then Ret e
      else if opCode = 0xC7 then MovRm32Imm32 e
      else if opCode = 0xC9 then Leave e
      else if opCode = 0xCD then Swi e
      else if opCode = 0xE8 then CallRel32 e
      else if opCode = 0xE9 then NearJump e
      else if opCode = 0xEB then ShortJump e
      else if opCode = 0xEE then OutDxAl e
      else if opCode = 0xFF then CodeFF e
      else Inr (e\<lparr>Eip := 0\<rparr>))"

text \<open>The case labels of the \<open>switch\<close> in \<open>executeOpCode\<close>.\<close>

definition implemented :: "uint32 list" where
  "implemented =
     [0x01, 0x3B, 0x3C, 0x3D,
      0x40, 0x41, 0x42, 0x43, 0x44, 0x45, 0x46, 0x47,
      0x50, 0x51, 0x52, 0x53, 0x54, 0x55, 0x56, 0x57,
      0x58, 0x59, 0x5A, 0x5B, 0x5C, 0x5D, 0x5E, 0x5F,
      0x68, 0x6A, 0x70, 0x71, 0x72, 0x73, 0x74, 0x75, 0x78, 0x79, 0x7C, 0x7E,
      0x83, 0x88, 0x89, 0x8A, 0x8B,
      0xB0, 0xB1, 0xB2, 0xB3, 0xB4, 0xB5, 0xB6, 0xB7,
      0xB8, 0xB9, 0xBA, 0xBB, 0xBC, 0xBD, 0xBE, 0xBF,
      0xC3, 0xC7, 0xC9, 0xCD, 0xE8, 0xE9, 0xEB, 0xEE, 0xFF]"

text \<open>
  The loop of \<open>Run\<close> may go on for ever: \<open>None\<close> is the run that does not return,
  \<open>Some (Inl err)\<close> the run that a panic or \<open>os.Exit\<close> ends, \<open>Some (Inr e')\<close> the run that
  leaves the loop by one of its two \<open>break\<close>s, in state \<open>e'\<close>. The flag \<open>quiet\<close> only
  selects a trace message.
\<close>

partial_function (option) Run :: "Emulator \<Rightarrow> (error + Emulator) option" where
  "Run e =
     (if MaxMemorySize e \<le> Eip e then Some (Inr e)
      else (case GetCode8 e 0 of
              Inl err \<Rightarrow> Some (Inl err)
            | Inr code \<Rightarrow>
                (case executeOpCode e code of
                   Inl err \<Rightarrow> Some (Inl err)
                 | Inr e1 \<Rightarrow> if Eip e1 = 0x0 then Some (Inr e1) else Run e1)))"

section \<open>Example states\<close>

text \<open>
  The state that \<open>NewEmulator\<close> builds in \<open>main\<close> for a program of \<open>length prog\<close>
  bytes and a memory that ends with the program: zeroes below 0x7c00, the program from
  0x7c00 on, program counter and stack pointer at 0x7c00.
\<close>

definition loaded :: "uint8 list \<Rightarrow> Emulator" where
  "loaded prog =
     \<lparr>Registers = [0, 0, 0, 0, 0x7c00, 0, 0, 0], Eflags = 0,
      Memory = replicate 0x7c00 0 @ prog, Eip = 0x7c00,
      MaxMemorySize = of_nat (0x7c00 + length prog), Output = []\<rparr>"

text \<open>A small state with the program at address 0 and chosen registers.\<close>

definition small :: "uint32 list \<Rightarrow> uint8 list \<Rightarrow> Emulator" where
  "small regs mem =
     \<lparr>Registers = regs, Eflags = 0, Memory = mem, Eip = 0,
      MaxMemorySize = of_nat (length mem), Output = []\<rparr>"

section \<open>Sign-extended reads\<close>

lemma sint8_cases: "sint (val::8 word) = (if bit val 7 then uint val - 256 else uint val)"
proof -
  have b: "uint val < 256" "0 \<le> uint val" using uint_lt2p[of val] by simp_all
  have "sint val = signed_take_bit 7 (uint val)" by (simp add: sint_uint)
  also have "\<dots> = (if bit val 7 then uint val - 256 else uint val)"
    using b by (simp add: signed_take_bit_eq_take_bit_minus take_bit_eq_mod bit_unsigned_iff)
  finally show ?thesis .
qed

lemma ucast_nonneg8:
  assumes "\<not> bit (val::8 word) 7"
  shows "(ucast val :: 32 word) = scast val"
proof -
  have "sint val = uint val" using assms by (simp add: sint8_cases)
  then have "(word_of_int (sint val) :: 32 word) = word_of_int (uint val)" by (rule arg_cong)
  then show ?thesis unfolding ucast_eq scast_eq by (rule sym)
qed

lemma neg_complement8:
  assumes "bit (val::8 word) 7"
  shows "- (ucast (NOT val + 1) :: 32 word) = scast val"
proof -
  have b: "uint val < 256" "0 \<le> uint val" using uint_lt2p[of val] by simp_all
  have nz: "128 \<le> uint val"
    using assms sint8_cases[of val] bit_last_iff[of val] sint_ge[of val] by simp
  have n: "NOT val + 1 = - val" by (simp flip: minus_eq_not_plus_1)
  have u: "uint (- val) = 256 - uint val"
    using b nz by (simp add: uint_word_ariths zmod_zminus1_eq_if)
  have s: "sint val = - (256 - uint val)" using assms by (simp add: sint8_cases)
  have "- (word_of_int (256 - uint val) :: 32 word) = word_of_int (- (256 - uint val))"
    by (simp only: of_int_minus)
  then show ?thesis unfolding n ucast_eq scast_eq u s .
qed

lemma GetSignCode8_scast:
  "unat (Eip e + i) < length (Memory e) \<Longrightarrow>
   GetSignCode8 e i = Inr (scast (Memory e ! unat (Eip e + i)))"
  using ucast_nonneg8 [of "Memory e ! unat (Eip e + i)"]
    neg_complement8 [of "Memory e ! unat (Eip e + i)"]
    drop_bit_eq_zero_iff_not_bit_last [of "Memory e ! unat (Eip e + i)"]
  by (simp add: GetSignCode8_def Let_def)

lemma GetSignCode8_range:
  "unat (Eip e + i) \<ge> length (Memory e) \<Longrightarrow> GetSignCode8 e i = Inl IndexOutOfRange"
  by (simp add: GetSignCode8_def)

lemma sint_scast8: "sint (scast (b::8 word) :: 32 word) = sint b"
  using sint_ge[of b] sint_lt[of b]
  by (simp add: signed_scast_eq signed_take_bit_int_eq_self)

lemma sint8_mod: "sint (b :: 8 word) mod 256 = uint b"
  using uint_lt2p[of b] by (simp add: sint8_cases)

lemma sint32_mod: "sint (w :: 32 word) mod 4294967296 = uint w"
  using uint_sint[of w] by (simp add: take_bit_eq_mod)

lemma GetSignCode32_id: "GetCode32 e j = Inr w \<Longrightarrow> GetSignCode32 e j = Inr w"
  by (simp add: GetSignCode32_def Let_def flip: minus_eq_not_plus_1)

text \<open>
  C5. When the byte at offset \<open>i\<close> from the program counter is \<open>b\<close>, the one-byte
  sign-extended read returns an integer between -128 and 127 that is congruent to \<open>b\<close>
  modulo 256; when the four-byte read at offset \<open>j\<close> gives the word \<open>w\<close>, the four-byte
  sign-extended read returns an integer between -2^31 and 2^31 - 1 that is congruent to
  \<open>w\<close> modulo 2^32. No byte and no word is excepted, so 0x80 and 0x80000000 are
  decoded as -128 and -2^31.
\<close>

theorem GetSignCode_twos_complement:
  "(unat (Eip e + i) < length (Memory e) \<and> Memory e ! unat (Eip e + i) = b \<longrightarrow>
      (\<exists>r. GetSignCode8 e i = Inr r \<and> - 128 \<le> sint r \<and> sint r \<le> 127 \<and>
           sint r mod 256 = uint b))
   \<and> (GetCode32 e j = Inr w \<longrightarrow>
      (\<exists>r. GetSignCode32 e j = Inr r \<and> - 2147483648 \<le> sint r \<and> sint r \<le> 2147483647 \<and>
           sint r mod 4294967296 = uint w))"
proof (intro conjI impI)
  assume h: "unat (Eip e + i) < length (Memory e) \<and> Memory e ! unat (Eip e + i) = b"
  then have r: "GetSignCode8 e i = Inr (scast b)"
    using GetSignCode8_scast [of e i] by simp
  have "- 128 \<le> sint b" "sint b \<le> 127"
    using sint_ge [of b] sint_lt [of b] by simp_all
  then show "\<exists>r. GetSignCode8 e i = Inr r \<and> - 128 \<le> sint r \<and> sint r \<le> 127 \<and>
      sint r mod 256 = uint b"
    using r by (simp add: sint_scast8 sint8_mod)
next
  assume "GetCode32 e j = Inr w"
  then have r: "GetSignCode32 e j = Inr w" by (rule GetSignCode32_id)
  have "- 2147483648 \<le> sint w" "sint w \<le> 2147483647"
    using sint_ge [of w] sint_lt [of w] by simp_all
  then show "\<exists>r. GetSignCode32 e j = Inr r \<and> - 2147483648 \<le> sint r \<and>
      sint r \<le> 2147483647 \<and> sint r mod 4294967296 = uint w"
    using r by (simp add: sint32_mod)
qed

theorem GetSignCode_twos_complement_witness:
  "(unat (Eip (small [] [0x80, 0, 0, 0, 0x80]) + 0) < length (Memory (small [] [0x80, 0, 0, 0, 0x80]))
    \<and> Memory (small [] [0x80, 0, 0, 0, 0x80]) ! unat (Eip (small [] [0x80, 0, 0, 0, 0x80]) + 0) = 0x80)
   \<and> GetCode32 (small [] [0x80, 0, 0, 0, 0x80]) 1 = Inr 0x80000000
   \<and> (\<exists>r. GetSignCode8 (small [] [0x80, 0, 0, 0, 0x80]) 0 = Inr r \<and> - 128 \<le> sint r \<and>
          sint r \<le> 127 \<and> sint r mod 256 = uint (0x80 :: 8 word))
   \<and> (\<exists>r. GetSignCode32 (small [] [0x80, 0, 0, 0, 0x80]) 1 = Inr r \<and> - 2147483648 \<le> sint r \<and>
          sint r \<le> 2147483647 \<and> sint r mod 4294967296 = uint (0x80000000 :: 32 word))"
proof -
  let ?e = "small [] [0x80, 0, 0, 0, 0x80]"
  have a: "unat (Eip ?e + 0) < length (Memory ?e) \<and> Memory ?e ! unat (Eip ?e + 0) = 0x80"
    by (simp add: small_def)
  have b: "GetCode32 ?e 1 = Inr 0x80000000"
    by (simp add: small_def GetCode32_def GetCode8_def)
  note t = GetSignCode_twos_complement [of ?e 0 "0x80" 1 "0x80000000"]
  have c: "\<exists>r. GetSignCode8 ?e 0 = Inr r \<and> - 128 \<le> sint r \<and>
          sint r \<le> 127 \<and> sint r mod 256 = uint (0x80 :: 8 word)"
    by (rule t [THEN conjunct1, THEN mp, OF a])
  have d: "\<exists>r. GetSignCode32 ?e 1 = Inr r \<and> - 2147483648 \<le> sint r \<and>
          sint r \<le> 2147483647 \<and> sint r mod 4294967296 = uint (0x80000000 :: 32 word)"
    by (rule t [THEN conjunct2, THEN mp, OF b])
  from a b c d show ?thesis by blast
qed

section \<open>Unfolding the accessors\<close>

lemmas access_defs = GetCode8_def GetCode32_def GetSignCode8_def GetSignCode32_def
  getRegister32_def setRegister32_def getRegister8_def setRegister8_def
  getMemory8_def setMemory8_def getMemory32_def setMemory32_def
  ParseModrm_def newModRM_def calcMemoryAddress_def
  getRm32_def setRm32_def getR32_def setR32_def getRm8_def setRm8_def getR8_def setR8_def
  CEax_def CEcx_def CEdx_def CEbx_def CEsp_def CEbp_def CAl_def CAh_def CBl_def

lemmas flag_defs = updateEflagsSub_def setCarry_def setZero_def setSign_def setOverFlow_def
  isCarry_def isZero_def isSign_def isOverFlow_def CarryFlag_def ZeroFlag_def SignFlag_def
  OverFlowFlag_def

section \<open>Jumps\<close>

lemma jumpBy_eq: "jumpBy e diff len = e\<lparr>Eip := Eip e + diff + len\<rparr>"
  by (simp add: jumpBy_def Let_def add.assoc)

text \<open>
  C4. When the byte after the opcode is \<open>d\<close> and the program counter is \<open>p\<close>, the
  unconditional short jump (opcode 0xEB) sets the program counter to
  \<open>p + signext d + 2\<close> modulo 2^32 and changes nothing else. The witness is the two
  jumps of the specification: displacement 0x05 at 0x7c00 gives 0x7c07, displacement
  0xFE at 0x7c00 gives 0x7c00.
\<close>

theorem ShortJump_target:
  assumes "unat (Eip e + 1) < length (Memory e)"
    and "Memory e ! unat (Eip e + 1) = d"
    and "Eip e = p"
  shows "ShortJump e = Inr (e\<lparr>Eip := p + scast d + 2\<rparr>)
         \<and> executeOpCode e 0xEB = ShortJump e"
  using assms GetSignCode8_scast [of e 1]
  by (simp add: ShortJump_def jumpBy_eq executeOpCode_def)

theorem ShortJump_target_witness:
  "unat (Eip (loaded [0xEB, 0x05]) + 1) < length (Memory (loaded [0xEB, 0x05]))
   \<and> Memory (loaded [0xEB, 0x05]) ! unat (Eip (loaded [0xEB, 0x05]) + 1) = 0x05
   \<and> Eip (loaded [0xEB, 0x05]) = 0x7c00
   \<and> ShortJump (loaded [0xEB, 0x05]) = Inr ((loaded [0xEB, 0x05])\<lparr>Eip := 0x7c07\<rparr>)
   \<and> ShortJump (loaded [0xEB, 0xFE]) = Inr ((loaded [0xEB, 0xFE])\<lparr>Eip := 0x7c00\<rparr>)"
proof -
  have a: "unat (Eip (loaded [0xEB, 0x05]) + 1) < length (Memory (loaded [0xEB, 0x05]))"
    "Memory (loaded [0xEB, 0x05]) ! unat (Eip (loaded [0xEB, 0x05]) + 1) = 0x05"
    "Eip (loaded [0xEB, 0x05]) = 0x7c00"
    by (simp_all add: loaded_def nth_append)
  have b: "unat (Eip (loaded [0xEB, 0xFE]) + 1) < length (Memory (loaded [0xEB, 0xFE]))"
    "Memory (loaded [0xEB, 0xFE]) ! unat (Eip (loaded [0xEB, 0xFE]) + 1) = 0xFE"
    "Eip (loaded [0xEB, 0xFE]) = 0x7c00"
    by (simp_all add: loaded_def nth_append)
  have "ShortJump (loaded [0xEB, 0x05]) = Inr ((loaded [0xEB, 0x05])\<lparr>Eip := 0x7c07\<rparr>)"
    using ShortJump_target [OF a] by simp
  moreover have "ShortJump (loaded [0xEB, 0xFE]) = Inr ((loaded [0xEB, 0xFE])\<lparr>Eip := 0x7c00\<rparr>)"
    using ShortJump_target [OF b] by simp
  ultimately show ?thesis using a by simp
qed

section \<open>Effective addresses with a one-byte displacement\<close>

lemma sint_neg8:
  assumes "d \<noteq> (0x80 :: 8 word)"
  shows "sint (- d) = - sint d"
proof -
  have "sint d \<noteq> - 128"
  proof
    assume "sint d = - 128"
    then have "sint d = sint (0x80 :: 8 word)" by simp
    then have "d = 0x80" by (simp only: word_eq_iff_signed [symmetric])
    with assms show False by simp
  qed
  then have "- 128 \<le> - sint d" "- sint d < 128"
    using sint_ge [of d] sint_lt [of d] by simp_all
  then show ?thesis
    by (simp add: sint_word_ariths signed_take_bit_int_eq_self)
qed

lemma scast_neg8:
  assumes "d \<noteq> (0x80 :: 8 word)"
  shows "(scast (- d) :: 32 word) = - scast d"
proof -
  have "(word_of_int (sint (- d)) :: 32 word) = word_of_int (- sint d)"
    using sint_neg8 [OF assms] by (rule arg_cong)
  also have "\<dots> = - word_of_int (sint d)" by (simp only: of_int_minus)
  finally show ?thesis unfolding scast_eq .
qed

text \<open>
  What the code computes for mode 1: the sign-extended displacement is added for every
  displacement byte but 0x80, where \<open>-m.Disp8\<close> overflows the \<open>int8\<close> and 128 is added.
\<close>

lemma calcMemoryAddress_mod1:
  assumes "Mod m = 1" and "Rm m \<noteq> 4" and "unat (Rm m) < length (Registers e)"
  shows "calcMemoryAddress e m =
           Inr (Registers e ! unat (Rm m)
                + (if Disp8 m = 0x80 then 0x80 else scast (Disp8 m)))"
proof (cases "Disp8 m = 0x80")
  case True
  then show ?thesis
    using assms by (simp add: calcMemoryAddress_def getRegister32_def word_sless_alt)
next
  case False
  then show ?thesis
    using assms scast_neg8 [of "Disp8 m"]
    by (simp add: calcMemoryAddress_def getRegister32_def)
qed

text \<open>
  C2. The descriptor with mode 1, base/memory field 0 and displacement byte 0x80, decoded
  from the bytes 0x40 0x80, against base register value 0x8000: the code resolves it to
  0x8080, while the base plus the sign-extended displacement is 0x7F80.
\<close>

theorem calcMemoryAddress_disp8_0x80:
  "ParseModrm (small [0x8000, 0, 0, 0, 0, 0, 0, 0] [0x40, 0x80])
     = Inr (newModRM\<lparr>Mod := 1, Disp8 := 0x80\<rparr>,
            (small [0x8000, 0, 0, 0, 0, 0, 0, 0] [0x40, 0x80])\<lparr>Eip := 2\<rparr>)
   \<and> calcMemoryAddress ((small [0x8000, 0, 0, 0, 0, 0, 0, 0] [0x40, 0x80])\<lparr>Eip := 2\<rparr>)
         (newModRM\<lparr>Mod := 1, Disp8 := 0x80\<rparr>) = Inr 0x8080
   \<and> (0x8000 :: uint32) + scast (0x80 :: 8 word) = 0x7F80"
  by (simp add: small_def access_defs word_sless_alt)

section \<open>Subtract-immediate and the byte-form load at their failing inputs\<close>

text \<open>
  C1. The subtract-immediate-8-bit sub-operation (bytes 0x83 0xE8 0xFF: subtract the
  immediate 0xFF, sign-extended to \<open>b\<close> = 0xFFFFFFFF, from register 0). With \<open>a\<close> = 0
  the code leaves carry clear although \<open>a < b\<close>; with \<open>a\<close> = 0xFFFFFFFF it sets carry and
  leaves zero clear although \<open>a = b\<close>.
\<close>

theorem SubRm32Imm8_negative_immediate:
  "executeOpCode (small [0, 0, 0, 0, 0, 0, 0, 0] [0x83, 0xE8, 0xFF]) 0x83
     = Inr ((small [1, 0, 0, 0, 0, 0, 0, 0] [0x83, 0xE8, 0xFF])\<lparr>Eip := 3, Eflags := 0\<rparr>)
   \<and> \<not> isCarry ((small [1, 0, 0, 0, 0, 0, 0, 0] [0x83, 0xE8, 0xFF])\<lparr>Eip := 3, Eflags := 0\<rparr>)
   \<and> (0 :: uint32) < scast (0xFF :: 8 word)
   \<and> executeOpCode (small [0xFFFFFFFF, 0, 0, 0, 0, 0, 0, 0] [0x83, 0xE8, 0xFF]) 0x83
     = Inr ((small [0, 0, 0, 0, 0, 0, 0, 0] [0x83, 0xE8, 0xFF])\<lparr>Eip := 3, Eflags := 1\<rparr>)
   \<and> isCarry ((small [0, 0, 0, 0, 0, 0, 0, 0] [0x83, 0xE8, 0xFF])\<lparr>Eip := 3, Eflags := 1\<rparr>)
   \<and> \<not> isZero ((small [0, 0, 0, 0, 0, 0, 0, 0] [0x83, 0xE8, 0xFF])\<lparr>Eip := 3, Eflags := 1\<rparr>)
   \<and> (0xFFFFFFFF :: uint32) = scast (0xFF :: 8 word)"
  by (simp add: small_def executeOpCode_def Code83_def SubRm32Imm8_def access_defs flag_defs word_gt_0
      Let_def)

text \<open>
  C3. Opcode 0x8A with the addressing byte 0xC1 (mode 3, reg field 0, base/memory
  field 1), registers 0 and 1 holding 0x11223344 and 0xAABBCCDD. The dispatch runs the
  32-bit store \<open>MovRm32R32\<close>: register 1 becomes 0x11223344 and register 0 keeps its
  value. The byte-form load \<open>MovR8Rm8\<close>, which no opcode reaches, would set the low byte
  of register 0 to 0xDD and keep register 1.
\<close>

theorem opcode_8A_runs_MovRm32R32:
  "executeOpCode (small [0x11223344, 0xAABBCCDD, 0, 0, 0, 0, 0, 0] [0x8A, 0xC1]) 0x8A
     = Inr ((small [0x11223344, 0x11223344, 0, 0, 0, 0, 0, 0] [0x8A, 0xC1])\<lparr>Eip := 2\<rparr>)
   \<and> MovR8Rm8 (small [0x11223344, 0xAABBCCDD, 0, 0, 0, 0, 0, 0] [0x8A, 0xC1])
     = Inr ((small [0x112233DD, 0xAABBCCDD, 0, 0, 0, 0, 0, 0] [0x8A, 0xC1])\<lparr>Eip := 2\<rparr>)"
  by (simp add: small_def executeOpCode_def MovRm32R32_def MovR8Rm8_def access_defs Let_def)

section \<open>Stack\<close>

lemma le32_reassemble:
  "ucast (ucast (v :: 32 word) :: 8 word)
   OR push_bit 8 (ucast (ucast (drop_bit 8 v) :: 8 word))
   OR push_bit 16 (ucast (ucast (drop_bit 16 v) :: 8 word))
   OR push_bit 24 (ucast (ucast (drop_bit 24 v) :: 8 word)) = v"
  (is "?w = v")
proof (rule bit_word_eqI)
  fix n
  assume "n < LENGTH(32)"
  then consider "n < 8" | "8 \<le> n" "n < 16" | "16 \<le> n" "n < 24" | "24 \<le> n" "n < 32"
    by fastforce
  then show "bit ?w n = bit v n"
    by cases (auto simp: bit_simps)
qed

lemma ucast_mask8: "(ucast ((x :: 32 word) AND 0xFF) :: 8 word) = ucast x"
proof -
  have "(0xFF :: 32 word) = mask 8" by (simp add: mask_eq_exp_minus_1)
  then have "x AND 0xFF = take_bit 8 x" by (simp add: take_bit_eq_mask)
  then show ?thesis by (simp add: bit_word_eqI bit_simps)
qed

lemma setMemory32_eq:
  assumes "unat a < length (Memory e)" and "unat (a + 1) < length (Memory e)"
    and "unat (a + 2) < length (Memory e)" and "unat (a + 3) < length (Memory e)"
  shows "setMemory32 e a v =
           Inr (e\<lparr>Memory := (Memory e)[unat a := ucast v,
                                        unat (a + 1) := ucast (drop_bit 8 v),
                                        unat (a + 2) := ucast (drop_bit 16 v),
                                        unat (a + 3) := ucast (drop_bit 24 v)]\<rparr>)"
  using assms by (simp add: setMemory32_def setMemory8_def ucast_mask8)

lemma getMemory32_eq:
  assumes "unat a < length (Memory e)" and "unat (a + 1) < length (Memory e)"
    and "unat (a + 2) < length (Memory e)" and "unat (a + 3) < length (Memory e)"
  shows "getMemory32 e a =
           Inr (ucast (Memory e ! unat a)
                OR push_bit 8 (ucast (Memory e ! unat (a + 1)))
                OR push_bit 16 (ucast (Memory e ! unat (a + 2)))
                OR push_bit 24 (ucast (Memory e ! unat (a + 3))))"
  using assms by (simp add: getMemory32_def getMemory8_def or.assoc)

lemma getMemory32_setMemory32:
  assumes "unat a < length (Memory e)" and "unat (a + 1) < length (Memory e)"
    and "unat (a + 2) < length (Memory e)" and "unat (a + 3) < length (Memory e)"
    and "setMemory32 e a v = Inr e'"
  shows "getMemory32 e' a = Inr v"
proof -
  have e': "e' = e\<lparr>Memory := (Memory e)[unat a := ucast v,
                                        unat (a + 1) := ucast (drop_bit 8 v),
                                        unat (a + 2) := ucast (drop_bit 16 v),
                                        unat (a + 3) := ucast (drop_bit 24 v)]\<rparr>"
    using assms setMemory32_eq [of a e v] by simp
  have len: "unat a < length (Memory e')" "unat (a + 1) < length (Memory e')"
    "unat (a + 2) < length (Memory e')" "unat (a + 3) < length (Memory e')"
    using assms(1-4) by (simp_all add: e')
  have b: "Memory e' ! unat a = ucast v" "Memory e' ! unat (a + 1) = ucast (drop_bit 8 v)"
    "Memory e' ! unat (a + 2) = ucast (drop_bit 16 v)"
    "Memory e' ! unat (a + 3) = ucast (drop_bit 24 v)"
    using assms(1-4) by (simp_all add: e' nth_list_update word_unat_eq_iff [symmetric])
  show ?thesis
    unfolding getMemory32_eq [OF len] b by (simp only: le32_reassemble)
qed

lemma getMemory32_Eip: "getMemory32 (e\<lparr>Eip := p\<rparr>) a = getMemory32 e a"
  by (simp add: getMemory32_def getMemory8_def)

lemma push32_eq:
  assumes "length (Registers e) = 8" and "Registers e ! 4 = s"
    and "unat (s - 4) < length (Memory e)" and "unat (s - 3) < length (Memory e)"
    and "unat (s - 2) < length (Memory e)" and "unat (s - 1) < length (Memory e)"
  shows "push32 e v =
           Inr (e\<lparr>Registers := (Registers e)[4 := s - 4],
                  Memory := (Memory e)[unat (s - 4) := ucast v,
                                       unat (s - 3) := ucast (drop_bit 8 v),
                                       unat (s - 2) := ucast (drop_bit 16 v),
                                       unat (s - 1) := ucast (drop_bit 24 v)]\<rparr>)"
proof -
  let ?e1 = "e\<lparr>Registers := (Registers e)[4 := s - 4]\<rparr>"
  have "setMemory32 ?e1 (s - 4) v =
          Inr (?e1\<lparr>Memory := (Memory ?e1)[unat (s - 4) := ucast v,
                                       unat (s - 4 + 1) := ucast (drop_bit 8 v),
                                       unat (s - 4 + 2) := ucast (drop_bit 16 v),
                                       unat (s - 4 + 3) := ucast (drop_bit 24 v)]\<rparr>)"
    using assms(3-6) by (intro setMemory32_eq) simp_all
  then show ?thesis
    using assms(1,2) by (simp add: push32_def getRegister32_def setRegister32_def CEsp_def Let_def)
qed

lemma push32_readback:
  assumes "length (Registers e) = 8" and "Registers e ! 4 = s"
    and "unat (s - 4) < length (Memory e)" and "unat (s - 3) < length (Memory e)"
    and "unat (s - 2) < length (Memory e)" and "unat (s - 1) < length (Memory e)"
    and "push32 e v = Inr e'"
  shows "getMemory32 e' (s - 4) = Inr v"
proof -
  let ?e1 = "e\<lparr>Registers := (Registers e)[4 := s - 4]\<rparr>"
  have s: "setMemory32 ?e1 (s - 4) v = Inr e'"
    using assms(1,2,7) by (simp add: push32_def getRegister32_def setRegister32_def CEsp_def Let_def)
  show ?thesis
    using assms(3-6) by (intro getMemory32_setMemory32 [OF _ _ _ _ s]) simp_all
qed

text \<open>
  C10. Push-register with the stack pointer itself as operand (opcode 0x54), the stack
  pointer holding \<open>s\<close> and the four bytes from \<open>s - 4\<close> inside memory: the instruction
  completes, the 32-bit value then stored at \<open>s - 4\<close> is \<open>s\<close>, the value from before
  the decrement, and the stack pointer is \<open>s - 4\<close>.
\<close>

theorem PushR32_stack_pointer:
  assumes "length (Registers e) = 8"
    and "unat (Eip e) < length (Memory e)" and "Memory e ! unat (Eip e) = 0x54"
    and "Registers e ! 4 = s"
    and "unat (s - 4) < length (Memory e)" and "unat (s - 3) < length (Memory e)"
    and "unat (s - 2) < length (Memory e)" and "unat (s - 1) < length (Memory e)"
  shows "\<exists>e'. PushR32 e = Inr e' \<and> executeOpCode e 0x54 = Inr e'
              \<and> getMemory32 e' (s - 4) = Inr s \<and> Registers e' ! 4 = s - 4"
proof -
  obtain e1 where p: "push32 e s = Inr e1" and r: "Registers e1 = (Registers e)[4 := s - 4]"
    using push32_eq [OF assms(1,4-8), of s] by simp
  have m: "getMemory32 e1 (s - 4) = Inr s"
    by (rule push32_readback [OF assms(1,4-8) p])
  have "PushR32 e = Inr (e1\<lparr>Eip := Eip e1 + 1\<rparr>)"
    using assms(1-4) p by (simp add: PushR32_def GetCode8_def getRegister32_def)
  moreover have "executeOpCode e 0x54 = PushR32 e"
    by (simp add: executeOpCode_def)
  moreover have "getMemory32 (e1\<lparr>Eip := Eip e1 + 1\<rparr>) (s - 4) = Inr s"
    using m by (simp only: getMemory32_Eip)
  moreover have "Registers (e1\<lparr>Eip := Eip e1 + 1\<rparr>) ! 4 = s - 4"
    using assms(1) r by simp
  ultimately show ?thesis by simp
qed

theorem PushR32_stack_pointer_witness:
  "length (Registers (small [0, 0, 0, 0, 8, 0, 0, 0] [0x54, 0, 0, 0, 0, 0, 0, 0])) = 8
   \<and> Memory (small [0, 0, 0, 0, 8, 0, 0, 0] [0x54, 0, 0, 0, 0, 0, 0, 0])
       ! unat (Eip (small [0, 0, 0, 0, 8, 0, 0, 0] [0x54, 0, 0, 0, 0, 0, 0, 0])) = 0x54
   \<and> Registers (small [0, 0, 0, 0, 8, 0, 0, 0] [0x54, 0, 0, 0, 0, 0, 0, 0]) ! 4 = 8
   \<and> (\<exists>e'. PushR32 (small [0, 0, 0, 0, 8, 0, 0, 0] [0x54, 0, 0, 0, 0, 0, 0, 0]) = Inr e'
          \<and> executeOpCode (small [0, 0, 0, 0, 8, 0, 0, 0] [0x54, 0, 0, 0, 0, 0, 0, 0]) 0x54 = Inr e'
          \<and> getMemory32 e' (8 - 4) = Inr 8 \<and> Registers e' ! 4 = 8 - 4)"
proof -
  let ?e = "small [0, 0, 0, 0, 8, 0, 0, 0] [0x54, 0, 0, 0, 0, 0, 0, 0]"
  have h: "length (Registers ?e) = 8" "unat (Eip ?e) < length (Memory ?e)"
    "Memory ?e ! unat (Eip ?e) = 0x54" "Registers ?e ! 4 = 8"
    "unat (8 - 4 :: uint32) < length (Memory ?e)" "unat (8 - 3 :: uint32) < length (Memory ?e)"
    "unat (8 - 2 :: uint32) < length (Memory ?e)" "unat (8 - 1 :: uint32) < length (Memory ?e)"
    by (simp_all add: small_def)
  from PushR32_stack_pointer [OF h] h(1,3,4) show ?thesis by blast
qed

lemma pop32_after_push32:
  assumes "length (Registers e) = 8" and "Registers e ! 4 = s"
    and "unat (s - 4) < length (Memory e)" and "unat (s - 3) < length (Memory e)"
    and "unat (s - 2) < length (Memory e)" and "unat (s - 1) < length (Memory e)"
    and "push32 e v = Inr e1"
  shows "pop32 (e1\<lparr>Eip := p\<rparr>) = Inr (v, e1\<lparr>Eip := p, Registers := (Registers e)[4 := s]\<rparr>)"
proof -
  have e1: "Registers e1 = (Registers e)[4 := s - 4]"
    using push32_eq [OF assms(1-6), of v] assms(7) by auto
  have m: "getMemory32 (e1\<lparr>Eip := p\<rparr>) (s - 4) = Inr v"
    using push32_readback [OF assms] by (simp only: getMemory32_Eip)
  show ?thesis
    using assms(1) e1 m
    by (simp add: pop32_def getRegister32_def setRegister32_def CEsp_def)
qed

lemma executeOpCode_pop:
  "c \<in> {0x58, 0x59, 0x5A, 0x5B, 0x5C, 0x5D, 0x5E, 0x5F} \<Longrightarrow> executeOpCode e c = popR32 e"
  by (auto simp add: executeOpCode_def)

lemma pop_opcode_cases:
  assumes "op \<in> {0x58, 0x59, 0x5A, 0x5B, 0x5C, 0x5D, 0x5E, 0x5F :: uint8}"
  shows "(ucast op :: uint32) \<in> {0x58, 0x59, 0x5A, 0x5B, 0x5C, 0x5D, 0x5E, 0x5F}"
    and "unat (op - 0x58) < 8"
    and "(ucast ((ucast op :: uint32) - 0x58) :: uint8) = op - 0x58"
    and "op \<noteq> 0x5C \<Longrightarrow> unat (op - 0x58) \<noteq> 4"
  using assms by auto

text \<open>
  C7, as the code has it. The stack pointer holds \<open>s\<close>, the four bytes from \<open>s - 4\<close>
  are inside memory, the bytes at the program counter are push-immediate-8-bit (0x6A)
  with immediate \<open>v\<close> and then a pop-into-register opcode \<open>op\<close>, and the byte that holds
  \<open>op\<close> is none of the four stack bytes. Then both instructions complete and the
  destination register holds \<open>v\<close> zero-extended; the stack pointer is \<open>s\<close> again when the
  destination is another register than the stack pointer, and holds \<open>v\<close> when the
  destination is the stack pointer itself (opcode 0x5C).
\<close>

theorem PushImm8_then_popR32:
  assumes "length (Registers e) = 8" and "Registers e ! 4 = s"
    and "unat (s - 4) < length (Memory e)" and "unat (s - 3) < length (Memory e)"
    and "unat (s - 2) < length (Memory e)" and "unat (s - 1) < length (Memory e)"
    and "unat (Eip e + 1) < length (Memory e)" and "Memory e ! unat (Eip e + 1) = v"
    and "unat (Eip e + 2) < length (Memory e)" and "Memory e ! unat (Eip e + 2) = op"
    and "op \<in> {0x58, 0x59, 0x5A, 0x5B, 0x5C, 0x5D, 0x5E, 0x5F}"
    and "Eip e + 2 \<notin> {s - 4, s - 3, s - 2, s - 1}"
  shows "\<exists>e1 e2. PushImm8 e = Inr e1 \<and> executeOpCode e 0x6A = Inr e1
                \<and> popR32 e1 = Inr e2 \<and> executeOpCode e1 (ucast op) = Inr e2
                \<and> Registers e2 ! unat (op - 0x58) = ucast v
                \<and> (op \<noteq> 0x5C \<longrightarrow> Registers e2 ! 4 = s)
                \<and> Eip e2 = Eip e + 3"
proof -
  obtain e0 where p: "push32 e (ucast v) = Inr e0"
    and e0: "Registers e0 = (Registers e)[4 := s - 4]" "Eip e0 = Eip e"
      "length (Memory e0) = length (Memory e)"
      "Memory e0 ! unat (Eip e + 2) = Memory e ! unat (Eip e + 2)"
  proof -
    have ne: "unat (Eip e + 2) \<noteq> unat (s - 4)" "unat (Eip e + 2) \<noteq> unat (s - 3)"
      "unat (Eip e + 2) \<noteq> unat (s - 2)" "unat (Eip e + 2) \<noteq> unat (s - 1)"
      using assms(12) by (simp_all add: word_unat_eq_iff [symmetric])
    show ?thesis
      by (rule that [OF push32_eq [OF assms(1-6)]]) (simp_all add: ne [symmetric])
  qed
  define e1 where "e1 = e0\<lparr>Eip := Eip e0 + 2\<rparr>"
  have push: "PushImm8 e = Inr e1"
    using assms(7,8) p by (simp add: PushImm8_def GetCode8_def e1_def)
  have pop: "pop32 e1 = Inr (ucast v, e0\<lparr>Eip := Eip e0 + 2, Registers := (Registers e)[4 := s]\<rparr>)"
    unfolding e1_def by (rule pop32_after_push32 [OF assms(1-6) p])
  have code: "GetCode8 e1 0 = Inr (ucast op)"
    using assms(9,10) e0 by (simp add: GetCode8_def e1_def)
  note oc = pop_opcode_cases [OF assms(11)]
  define e2 where "e2 = e0\<lparr>Eip := Eip e0 + 3,
                   Registers := (Registers e)[4 := s, unat (op - 0x58) := ucast v]\<rparr>"
  have popR: "popR32 e1 = Inr e2"
    unfolding popR32_def code pop
    using assms(1) oc(2) by (simp add: setRegister32_def Let_def oc(3) e2_def)
  have x1: "executeOpCode e 0x6A = PushImm8 e"
    by (simp add: executeOpCode_def)
  have x2: "executeOpCode e1 (ucast op) = popR32 e1"
    by (rule executeOpCode_pop [OF oc(1)])
  have r: "Registers e2 ! unat (op - 0x58) = ucast v"
    using assms(1) oc(2) by (simp add: e2_def)
  have r4: "op \<noteq> 0x5C \<longrightarrow> Registers e2 ! 4 = s"
    using assms(1) oc(4) by (simp add: e2_def)
  have i: "Eip e2 = Eip e + 3"
    by (simp add: e2_def e0)
  show ?thesis
    using push popR x1 x2 r r4 i by (intro exI [of _ e1] exI [of _ e2]) simp
qed

theorem PushImm8_then_popR32_witness:
  "length (Registers (small [0, 0, 0, 0, 8, 0, 0, 0] [0x6A, 0x2A, 0x58, 0, 0, 0, 0, 0])) = 8
   \<and> Registers (small [0, 0, 0, 0, 8, 0, 0, 0] [0x6A, 0x2A, 0x58, 0, 0, 0, 0, 0]) ! 4 = 8
   \<and> Memory (small [0, 0, 0, 0, 8, 0, 0, 0] [0x6A, 0x2A, 0x58, 0, 0, 0, 0, 0])
       ! unat (Eip (small [0, 0, 0, 0, 8, 0, 0, 0] [0x6A, 0x2A, 0x58, 0, 0, 0, 0, 0]) + 1) = 0x2A
   \<and> Memory (small [0, 0, 0, 0, 8, 0, 0, 0] [0x6A, 0x2A, 0x58, 0, 0, 0, 0, 0])
       ! unat (Eip (small [0, 0, 0, 0, 8, 0, 0, 0] [0x6A, 0x2A, 0x58, 0, 0, 0, 0, 0]) + 2) = 0x58
   \<and> (0x58 :: uint8) \<noteq> 0x5C
   \<and> (\<exists>e1 e2. PushImm8 (small [0, 0, 0, 0, 8, 0, 0, 0] [0x6A, 0x2A, 0x58, 0, 0, 0, 0, 0]) = Inr e1
          \<and> popR32 e1 = Inr e2 \<and> Registers e2 ! 0 = 0x2A \<and> Registers e2 ! 4 = 8)"
proof -
  let ?e = "small [0, 0, 0, 0, 8, 0, 0, 0] [0x6A, 0x2A, 0x58, 0, 0, 0, 0, 0]"
  have h: "length (Registers ?e) = 8" "Registers ?e ! 4 = 8"
    "unat (8 - 4 :: uint32) < length (Memory ?e)" "unat (8 - 3 :: uint32) < length (Memory ?e)"
    "unat (8 - 2 :: uint32) < length (Memory ?e)" "unat (8 - 1 :: uint32) < length (Memory ?e)"
    "unat (Eip ?e + 1) < length (Memory ?e)" "Memory ?e ! unat (Eip ?e + 1) = 0x2A"
    "unat (Eip ?e + 2) < length (Memory ?e)" "Memory ?e ! unat (Eip ?e + 2) = 0x58"
    "(0x58 :: uint8) \<in> {0x58, 0x59, 0x5A, 0x5B, 0x5C, 0x5D, 0x5E, 0x5F}"
    "Eip ?e + 2 \<notin> {8 - 4, 8 - 3, 8 - 2, 8 - 1 :: uint32}"
    by (simp_all add: small_def)
  have n: "(0x58 :: uint8) \<noteq> 0x5C" by simp
  from PushImm8_then_popR32 [OF h] obtain e1 e2 where
    "PushImm8 ?e = Inr e1" "popR32 e1 = Inr e2"
    "Registers e2 ! unat (0x58 - 0x58 :: uint8) = ucast (0x2A :: uint8)"
    "(0x58 :: uint8) \<noteq> 0x5C \<longrightarrow> Registers e2 ! 4 = 8"
    by blast
  with n have "\<exists>e1 e2. PushImm8 ?e = Inr e1 \<and> popR32 e1 = Inr e2 \<and> Registers e2 ! 0 = 0x2A
      \<and> Registers e2 ! 4 = 8"
    by auto
  with h(1,2,8,10) n show ?thesis by blast
qed

text \<open>
  C7 as stated fails at two inputs. With the stack pointer at 8 and the pop going into
  the stack pointer (bytes 0x6A 0x2A 0x5C), both instructions complete and the stack
  pointer is left at 0x2A, the popped value, and not at 8. With the stack pointer at 6
  and the pop going into register 0 (bytes 0x6A 0x2A 0x58, at addresses 0 to 2), the
  four stack bytes, addresses 2 to 5, are inside memory, the push overwrites the pop
  opcode at address 2 with 0x2A, and \<open>popR32\<close> ends in the index panic.
\<close>

theorem PushImm8_popR32_counterexample:
  "Registers (small [0, 0, 0, 0, 8, 0, 0, 0] [0x6A, 0x2A, 0x5C, 0, 0, 0, 0, 0]) ! 4 = 8
   \<and> PushImm8 (small [0, 0, 0, 0, 8, 0, 0, 0] [0x6A, 0x2A, 0x5C, 0, 0, 0, 0, 0])
     = Inr \<lparr>Registers = [0, 0, 0, 0, 4, 0, 0, 0], Eflags = 0,
            Memory = [0x6A, 0x2A, 0x5C, 0, 0x2A, 0, 0, 0], Eip = 2, MaxMemorySize = 8,
            Output = []\<rparr>
   \<and> popR32 \<lparr>Registers = [0, 0, 0, 0, 4, 0, 0, 0], Eflags = 0,
            Memory = [0x6A, 0x2A, 0x5C, 0, 0x2A, 0, 0, 0], Eip = 2, MaxMemorySize = 8,
            Output = []\<rparr>
     = Inr \<lparr>Registers = [0, 0, 0, 0, 0x2A, 0, 0, 0], Eflags = 0,
            Memory = [0x6A, 0x2A, 0x5C, 0, 0x2A, 0, 0, 0], Eip = 3, MaxMemorySize = 8,
            Output = []\<rparr>
   \<and> [0, 0, 0, 0, 0x2A, 0, 0, 0] ! 4 \<noteq> (8 :: uint32)
   \<and> Registers (small [0, 0, 0, 0, 6, 0, 0, 0] [0x6A, 0x2A, 0x58, 0, 0, 0, 0, 0]) ! 4 = 6
   \<and> unat (6 - 4 :: uint32) + 3
       < length (Memory (small [0, 0, 0, 0, 6, 0, 0, 0] [0x6A, 0x2A, 0x58, 0, 0, 0, 0, 0]))
   \<and> PushImm8 (small [0, 0, 0, 0, 6, 0, 0, 0] [0x6A, 0x2A, 0x58, 0, 0, 0, 0, 0])
     = Inr \<lparr>Registers = [0, 0, 0, 0, 2, 0, 0, 0], Eflags = 0,
            Memory = [0x6A, 0x2A, 0x2A, 0, 0, 0, 0, 0], Eip = 2, MaxMemorySize = 8,
            Output = []\<rparr>
   \<and> popR32 \<lparr>Registers = [0, 0, 0, 0, 2, 0, 0, 0], Eflags = 0,
            Memory = [0x6A, 0x2A, 0x2A, 0, 0, 0, 0, 0], Eip = 2, MaxMemorySize = 8,
            Output = []\<rparr>
     = Inl IndexOutOfRange"
  by (simp add: small_def PushImm8_def popR32_def push32_def pop32_def access_defs Let_def)

section \<open>Unrecognized opcodes\<close>

lemma executeOpCode_default:
  "c \<notin> set implemented \<Longrightarrow> executeOpCode e c = Inr (e\<lparr>Eip := 0\<rparr>)"
  by (simp add: executeOpCode_def implemented_def)

text \<open>
  C6. When the program counter is below the memory bound and the byte it points at is
  not a case label of the dispatch, executing that byte sets the program counter to 0
  and changes no register, flag or memory byte, and the run loop returns with that
  state: it ends by its \<open>break\<close>, not by a panic or \<open>os.Exit\<close>. The witness is the
  two-instruction program of the specification, loaded at 0x7c00: move 0x12345678 into
  register 0, then the byte 0xF4.
\<close>

theorem unrecognized_opcode_halts:
  assumes "Eip e < MaxMemorySize e"
    and "unat (Eip e) < length (Memory e)"
    and "ucast (Memory e ! unat (Eip e)) = c"
    and "c \<notin> set implemented"
  shows "executeOpCode e c = Inr (e\<lparr>Eip := 0\<rparr>) \<and> Run e = Some (Inr (e\<lparr>Eip := 0\<rparr>))"
proof -
  have x: "executeOpCode e c = Inr (e\<lparr>Eip := 0\<rparr>)"
    by (rule executeOpCode_default [OF assms(4)])
  have g: "GetCode8 e 0 = Inr c"
    using assms(2,3) by (simp add: GetCode8_def)
  have "Run e = Some (Inr (e\<lparr>Eip := 0\<rparr>))"
    using assms(1) by (subst Run.simps) (simp add: g x not_le)
  with x show ?thesis by simp
qed

theorem unrecognized_opcode_halts_witness:
  "Eip ((loaded [0xB8, 0x78, 0x56, 0x34, 0x12, 0xF4])
          \<lparr>Registers := [0x12345678, 0, 0, 0, 0x7c00, 0, 0, 0], Eip := 0x7c05\<rparr>)
     < MaxMemorySize (loaded [0xB8, 0x78, 0x56, 0x34, 0x12, 0xF4])
   \<and> (0xF4 :: uint32) \<notin> set implemented
   \<and> executeOpCode (loaded [0xB8, 0x78, 0x56, 0x34, 0x12, 0xF4]) 0xB8
       = Inr ((loaded [0xB8, 0x78, 0x56, 0x34, 0x12, 0xF4])
                \<lparr>Registers := [0x12345678, 0, 0, 0, 0x7c00, 0, 0, 0], Eip := 0x7c05\<rparr>)
   \<and> Run (loaded [0xB8, 0x78, 0x56, 0x34, 0x12, 0xF4])
       = Some (Inr ((loaded [0xB8, 0x78, 0x56, 0x34, 0x12, 0xF4])
                      \<lparr>Registers := [0x12345678, 0, 0, 0, 0x7c00, 0, 0, 0], Eip := 0\<rparr>))"
proof -
  let ?e = "loaded [0xB8, 0x78, 0x56, 0x34, 0x12, 0xF4]"
  let ?e1 = "?e\<lparr>Registers := [0x12345678, 0, 0, 0, 0x7c00, 0, 0, 0], Eip := 0x7c05\<rparr>"
  have h: "Eip ?e1 < MaxMemorySize ?e1" "unat (Eip ?e1) < length (Memory ?e1)"
    "ucast (Memory ?e1 ! unat (Eip ?e1)) = (0xF4 :: uint32)"
    "(0xF4 :: uint32) \<notin> set implemented"
    by (simp_all add: loaded_def nth_append implemented_def)
  have g: "GetCode8 ?e 0 = Inr 0xB8"
    by (simp add: loaded_def GetCode8_def nth_append)
  have m: "MovR32Imm32 ?e = Inr ?e1"
    by (simp add: loaded_def MovR32Imm32_def GetCode8_def GetCode32_def nth_append)
  have x: "executeOpCode ?e 0xB8 = Inr ?e1"
    using m by (simp add: executeOpCode_def)
  have r1: "Run ?e1 = Some (Inr (?e1\<lparr>Eip := 0\<rparr>))"
    using unrecognized_opcode_halts [OF h] by simp
  have b: "\<not> MaxMemorySize ?e \<le> Eip ?e" "Eip ?e1 \<noteq> 0"
    by (simp_all add: loaded_def)
  have "Run ?e = Run ?e1"
    by (subst Run.simps) (simp only: b g x if_False sum.case)
  with r1 have "Run ?e = Some (Inr (?e1\<lparr>Eip := 0\<rparr>))" by simp
  moreover have "?e1\<lparr>Eip := 0\<rparr> = ?e\<lparr>Registers := [0x12345678, 0, 0, 0, 0x7c00, 0, 0, 0], Eip := 0\<rparr>"
    by simp
  moreover have "MaxMemorySize ?e1 = MaxMemorySize ?e" by simp
  ultimately show ?thesis using h(1,4) x by simp
qed

section \<open>Instructions that leave the flags alone\<close>

lemma setRegister32_flags: "setRegister32 e i v = Inr e' \<Longrightarrow> Eflags e' = Eflags e"
  by (auto simp: setRegister32_def split: if_splits)

lemma setRegister8_flags: "setRegister8 e i v = Inr e' \<Longrightarrow> Eflags e' = Eflags e"
  by (auto simp: setRegister8_def Let_def split: if_splits)

lemma setMemory8_flags: "setMemory8 e a v = Inr e' \<Longrightarrow> Eflags e' = Eflags e"
  by (auto simp: setMemory8_def split: if_splits)

lemma setMemory32_flags: "setMemory32 e a v = Inr e' \<Longrightarrow> Eflags e' = Eflags e"
  by (auto simp: setMemory32_def split: sum.splits dest!: setMemory8_flags)

lemma ParseModrm_flags: "ParseModrm e = Inr (m, e') \<Longrightarrow> Eflags e' = Eflags e"
  by (auto simp: ParseModrm_def Let_def split: sum.splits if_splits)

lemma setRm32_flags: "setRm32 e m v = Inr e' \<Longrightarrow> Eflags e' = Eflags e"
  by (auto simp: setRm32_def split: if_splits sum.splits
      dest: setRegister32_flags setMemory32_flags)

lemma setRm8_flags: "setRm8 e m v = Inr e' \<Longrightarrow> Eflags e' = Eflags e"
  by (auto simp: setRm8_def split: if_splits sum.splits
      dest: setRegister8_flags setMemory8_flags)

lemma push32_flags: "push32 e v = Inr e' \<Longrightarrow> Eflags e' = Eflags e"
  by (auto simp: push32_def Let_def split: sum.splits
      dest!: setRegister32_flags setMemory32_flags)

lemma pop32_flags: "pop32 e = Inr (v, e') \<Longrightarrow> Eflags e' = Eflags e"
  by (auto simp: pop32_def split: sum.splits dest!: setRegister32_flags)

lemma putString_eq: "putString e s = e\<lparr>Output := Output e @ s\<rparr>"
  unfolding putString_def
  by (induction s arbitrary: e) (simp_all add: IoOut8_def)

lemma AddRm32R32_flags: "AddRm32R32 e = Inr e' \<Longrightarrow> Eflags e' = Eflags e"
  by (auto simp: AddRm32R32_def split: sum.splits dest!: ParseModrm_flags setRm32_flags)

lemma AddRm32Imm8_flags: "AddRm32Imm8 e m = Inr e' \<Longrightarrow> Eflags e' = Eflags e"
  by (auto simp: AddRm32Imm8_def split: sum.splits dest!: setRm32_flags)

lemma IncR32_flags: "IncR32 e = Inr e' \<Longrightarrow> Eflags e' = Eflags e"
  by (auto simp: IncR32_def Let_def split: sum.splits dest!: setRegister32_flags)

lemma IncRm32_flags: "IncRm32 e m = Inr e' \<Longrightarrow> Eflags e' = Eflags e"
  by (auto simp: IncRm32_def split: sum.splits dest!: setRm32_flags)

lemma CodeFF_flags: "CodeFF e = Inr e' \<Longrightarrow> Eflags e' = Eflags e"
  by (auto simp: CodeFF_def split: sum.splits if_splits dest!: ParseModrm_flags IncRm32_flags)

lemma PushR32_flags: "PushR32 e = Inr e' \<Longrightarrow> Eflags e' = Eflags e"
  by (auto simp: PushR32_def Let_def split: sum.splits dest!: push32_flags)

lemma popR32_flags: "popR32 e = Inr e' \<Longrightarrow> Eflags e' = Eflags e"
  by (auto simp: popR32_def Let_def split: sum.splits dest!: pop32_flags setRegister32_flags)

lemma PushImm32_flags: "PushImm32 e = Inr e' \<Longrightarrow> Eflags e' = Eflags e"
  by (auto simp: PushImm32_def split: sum.splits dest!: push32_flags)

lemma PushImm8_flags: "PushImm8 e = Inr e' \<Longrightarrow> Eflags e' = Eflags e"
  by (auto simp: PushImm8_def split: sum.splits dest!: push32_flags)

lemma Jcc_flags:
  "Jo e = Inr e' \<Longrightarrow> Eflags e' = Eflags e"
  "Jno e = Inr e' \<Longrightarrow> Eflags e' = Eflags e"
  "Jc e = Inr e' \<Longrightarrow> Eflags e' = Eflags e"
  "Jnc e = Inr e' \<Longrightarrow> Eflags e' = Eflags e"
  "Jz e = Inr e' \<Longrightarrow> Eflags e' = Eflags e"
  "Jnz e = Inr e' \<Longrightarrow> Eflags e' = Eflags e"
  "Js e = Inr e' \<Longrightarrow> Eflags e' = Eflags e"
  "Jns e = Inr e' \<Longrightarrow> Eflags e' = Eflags e"
  "Jl e = Inr e' \<Longrightarrow> Eflags e' = Eflags e"
  "Jle e = Inr e' \<Longrightarrow> Eflags e' = Eflags e"
  by (auto simp: Jo_def Jno_def Jc_def Jnc_def Jz_def Jnz_def Js_def Jns_def Jl_def Jle_def
      jumpBy_eq split: sum.splits if_splits)

lemma jump_flags:
  "ShortJump e = Inr e' \<Longrightarrow> Eflags e' = Eflags e"
  "NearJump e = Inr e' \<Longrightarrow> Eflags e' = Eflags e"
  "CallRel32 e = Inr e' \<Longrightarrow> Eflags e' = Eflags e"
  "Ret e = Inr e' \<Longrightarrow> Eflags e' = Eflags e"
  by (auto simp: ShortJump_def NearJump_def CallRel32_def Ret_def jumpBy_eq
      split: sum.splits dest!: push32_flags pop32_flags)

lemma Leave_flags: "Leave e = Inr e' \<Longrightarrow> Eflags e' = Eflags e"
  by (auto simp: Leave_def split: sum.splits dest!: setRegister32_flags pop32_flags)

lemma mov_flags:
  "MovRm8R8 e = Inr e' \<Longrightarrow> Eflags e' = Eflags e"
  "MovR8Imm8 e = Inr e' \<Longrightarrow> Eflags e' = Eflags e"
  "MovRm32R32 e = Inr e' \<Longrightarrow> Eflags e' = Eflags e"
  "MovR32Rm32 e = Inr e' \<Longrightarrow> Eflags e' = Eflags e"
  "MovRm32Imm32 e = Inr e' \<Longrightarrow> Eflags e' = Eflags e"
  "MovR32Imm32 e = Inr e' \<Longrightarrow> Eflags e' = Eflags e"
  by (auto simp: MovRm8R8_def MovR8Imm8_def MovRm32R32_def MovR32Rm32_def MovRm32Imm32_def
      MovR32Imm32_def setR8_def setR32_def Let_def split: sum.splits if_splits
      dest!: ParseModrm_flags setRm32_flags setRm8_flags setRegister32_flags setRegister8_flags)

lemma Swi_flags: "Swi e = Inr e' \<Longrightarrow> Eflags e' = Eflags e"
  by (auto simp: Swi_def biosVideo_def biosVideoTeletype_def putString_eq Let_def
      split: sum.splits if_splits)

lemma OutDxAl_flags: "OutDxAl e = Inr e' \<Longrightarrow> Eflags e' = Eflags e"
  by (auto simp: OutDxAl_def IoOut8_def Let_def split: sum.splits if_splits)

lemma executeOpCode_other:
  assumes "op \<notin> {0x3B, 0x3C, 0x3D, 0x83}"
  shows "executeOpCode e op \<in>
           {AddRm32R32 e, IncR32 e, PushR32 e, popR32 e, PushImm32 e, PushImm8 e,
            Jo e, Jno e, Jc e, Jnc e, Jz e, Jnz e, Js e, Jns e, Jl e, Jle e,
            MovRm8R8 e, MovRm32R32 e, MovR32Rm32 e, MovR8Imm8 e, MovR32Imm32 e,
            Ret e, MovRm32Imm32 e, Leave e, Swi e, CallRel32 e, NearJump e, ShortJump e,
            OutDxAl e, CodeFF e, Inr (e\<lparr>Eip := 0\<rparr>)}"
  using assms by (simp add: executeOpCode_def)

lemmas handler_flags = AddRm32R32_flags IncR32_flags PushR32_flags popR32_flags PushImm32_flags
  PushImm8_flags Jcc_flags jump_flags Leave_flags mov_flags Swi_flags OutDxAl_flags CodeFF_flags

lemma executeOpCode_other_flags:
  assumes "op \<notin> {0x3B, 0x3C, 0x3D, 0x83}" and "executeOpCode e op = Inr e'"
  shows "Eflags e' = Eflags e"
proof -
  have "Inr e' \<in>
           {AddRm32R32 e, IncR32 e, PushR32 e, popR32 e, PushImm32 e, PushImm8 e,
            Jo e, Jno e, Jc e, Jnc e, Jz e, Jnz e, Js e, Jns e, Jl e, Jle e,
            MovRm8R8 e, MovRm32R32 e, MovR32Rm32 e, MovR8Imm8 e, MovR32Imm32 e,
            Ret e, MovRm32Imm32 e, Leave e, Swi e, CallRel32 e, NearJump e, ShortJump e,
            OutDxAl e, CodeFF e, Inr (e\<lparr>Eip := 0\<rparr>)}"
    using executeOpCode_other [OF assms(1), of e] by (simp only: assms(2))
  then show ?thesis
    apply (elim insertE emptyE)
    apply (drule sym, erule handler_flags)+
    apply auto
    done
qed

text \<open>
  C8. Whenever one of them completes, the 32-bit add of a register into the
  memory/register operand, the add-immediate-8-bit sub-operation, the
  increment-register instruction and the increment sub-operation leave the flags word as
  it was; and so does every opcode of the dispatch other than the three compares (0x3B,
  0x3C, 0x3D) and the immediate group 0x83, which holds the subtract and compare
  sub-operations. In the witness, incrementing 0xFFFFFFFF to 0 keeps all four flags
  set, and adding 1 to 0xFFFFFFFF keeps them clear.
\<close>

theorem add_inc_keep_flags:
  assumes "r = AddRm32R32 e \<or> r = AddRm32Imm8 e m \<or> r = IncR32 e \<or> r = IncRm32 e m
           \<or> (r = executeOpCode e op \<and> op \<notin> {0x3B, 0x3C, 0x3D, 0x83})"
    and "r = Inr e'"
  shows "Eflags e' = Eflags e"
proof -
  from assms have "AddRm32R32 e = Inr e' \<or> AddRm32Imm8 e m = Inr e' \<or> IncR32 e = Inr e'
      \<or> IncRm32 e m = Inr e'
      \<or> (executeOpCode e op = Inr e' \<and> op \<notin> {0x3B, 0x3C, 0x3D, 0x83})"
    by auto
  then show ?thesis
  proof (elim disjE conjE)
    assume "AddRm32R32 e = Inr e'"
    then show ?thesis by (rule AddRm32R32_flags)
  next
    assume "AddRm32Imm8 e m = Inr e'"
    then show ?thesis by (rule AddRm32Imm8_flags)
  next
    assume "IncR32 e = Inr e'"
    then show ?thesis by (rule IncR32_flags)
  next
    assume "IncRm32 e m = Inr e'"
    then show ?thesis by (rule IncRm32_flags)
  next
    assume "executeOpCode e op = Inr e'" and "op \<notin> {0x3B, 0x3C, 0x3D, 0x83}"
    then show ?thesis by (rule executeOpCode_other_flags [rotated])
  qed
qed

theorem add_inc_keep_flags_witness:
  "IncR32 ((small [0xFFFFFFFF, 7, 0, 0, 0, 0, 0, 0] [0x40])\<lparr>Eflags := 0x8C1\<rparr>)
     = Inr ((small [0, 7, 0, 0, 0, 0, 0, 0] [0x40])\<lparr>Eflags := 0x8C1, Eip := 1\<rparr>)
   \<and> Eflags ((small [0, 7, 0, 0, 0, 0, 0, 0] [0x40])\<lparr>Eflags := 0x8C1, Eip := 1\<rparr>)
     = Eflags ((small [0xFFFFFFFF, 7, 0, 0, 0, 0, 0, 0] [0x40])\<lparr>Eflags := 0x8C1\<rparr>)
   \<and> (0x01 :: uint32) \<notin> {0x3B, 0x3C, 0x3D, 0x83}
   \<and> executeOpCode (small [0xFFFFFFFF, 1, 0, 0, 0, 0, 0, 0] [0x01, 0xC8]) 0x01
     = Inr ((small [0, 1, 0, 0, 0, 0, 0, 0] [0x01, 0xC8])\<lparr>Eip := 2\<rparr>)
   \<and> Eflags ((small [0, 1, 0, 0, 0, 0, 0, 0] [0x01, 0xC8])\<lparr>Eip := 2\<rparr>)
     = Eflags (small [0xFFFFFFFF, 1, 0, 0, 0, 0, 0, 0] [0x01, 0xC8])"
proof -
  let ?a = "(small [0xFFFFFFFF, 7, 0, 0, 0, 0, 0, 0] [0x40])\<lparr>Eflags := 0x8C1\<rparr>"
  let ?a' = "(small [0, 7, 0, 0, 0, 0, 0, 0] [0x40])\<lparr>Eflags := 0x8C1, Eip := 1\<rparr>"
  let ?b = "small [0xFFFFFFFF, 1, 0, 0, 0, 0, 0, 0] [0x01, 0xC8]"
  let ?b' = "(small [0, 1, 0, 0, 0, 0, 0, 0] [0x01, 0xC8])\<lparr>Eip := 2\<rparr>"
  have a: "IncR32 ?a = Inr ?a'"
    by (simp add: small_def IncR32_def access_defs)
  have n: "(0x01 :: uint32) \<notin> {0x3B, 0x3C, 0x3D, 0x83}" by simp
  have b: "executeOpCode ?b 0x01 = Inr ?b'"
    by (simp add: small_def executeOpCode_def AddRm32R32_def access_defs Let_def)
  have fa: "Eflags ?a' = Eflags ?a"
    by (rule add_inc_keep_flags [of "IncR32 ?a" ?a newModRM 0 ?a']) (simp_all add: a)
  have fb: "Eflags ?b' = Eflags ?b"
    by (rule add_inc_keep_flags [of "executeOpCode ?b 0x01" ?b newModRM "0x01" ?b'])
      (simp_all add: b)
  from a fa n b fb show ?thesis by blast
qed

section \<open>Teletype service\<close>








end
